theory Spec2Isabelle
  imports Complex_Main "HOL-Library.Word"
begin

unbundle bit_operations_syntax

section \<open>Entropy combination (keyManagement.ts)\<close>

type_synonym bytes = "8 word list"

text \<open>
  A read \<open>b[i]\<close> past the end of a \<open>Uint8Array\<close> yields \<open>undefined\<close>, which the
  operator \<open>^\<close> coerces to 0.
\<close>

definition byte_at :: "bytes \<Rightarrow> nat \<Rightarrow> 8 word" where
  "byte_at b i = (if i < length b then b ! i else 0)"

text \<open>
  The loop of \<open>XorUint8Array\<close>: \<open>for (let i = 0; i < a.length; i++) r[i] = a[i] ^ b[i]\<close>.
  The guard keeps \<open>i\<close> below \<open>a.length\<close>, which is also the length of \<open>r\<close>.
\<close>

function XorUint8Array_loop :: "bytes \<Rightarrow> bytes \<Rightarrow> nat \<Rightarrow> bytes \<Rightarrow> bytes" where
  "XorUint8Array_loop a b i r =
     (if i < length a
      then XorUint8Array_loop a b (Suc i) (r[i := (a ! i) XOR (byte_at b i)])
      else r)"
  by pat_completeness auto
termination
  by (relation "measure (\<lambda>(a, b, i, r). length a - i)") auto

declare XorUint8Array_loop.simps [simp del]

definition XorUint8Array :: "bytes \<Rightarrow> bytes \<Rightarrow> bytes" where
  "XorUint8Array a b = XorUint8Array_loop a b 0 (replicate (length a) 0)"

section \<open>Outcomes of operations\<close>

text \<open>
  The errors the program raises itself carry their message (\<open>new Error(msg)\<close>);
  \<open>TypeError\<close> is a property read on \<open>undefined\<close> or \<open>null\<close>; \<open>LibraryError\<close> is an
  exception raised inside libsodium or msgpack-lite.
\<close>

datatype js_error = Error string | TypeError | LibraryError

definition NoPrivateKey :: js_error where
  "NoPrivateKey = Error ''no signPriv - cannot sign data''"

definition NotARecipient :: js_error where
  "NotARecipient = Error ''could not decrypt - not a recipient?''"

definition NoKeys :: js_error where
  "NoKeys = Error ''trying to call with no keys''"

definition NoChannel :: js_error where
  "NoChannel = Error ''Could not register callback as no valid websocket instance found''"

text \<open>
  What the caller of an operation observes. \<open>Thrown\<close> is an exception raised before a
  promise is returned. \<open>Pending\<close> is a promise that is never settled: the operations of
  \<open>keypair.js\<close> and \<open>util\<close> call \<open>resolve\<close> inside a \<open>then\<close> callback of another promise,
  and an exception raised in such a callback rejects the promise returned by that \<open>then\<close>,
  which nothing observes, and leaves the promise under construction unsettled.
\<close>

datatype 'a outcome = Resolved 'a | Rejected js_error | Thrown js_error | Pending

section \<open>External libraries\<close>

datatype base64_variant = ORIGINAL | URLSAFE_NO_PADDING

text \<open>The values the program passes through msgpack-lite.\<close>

datatype msgpack = MNil | MBin bytes | MArray "msgpack list" | MMap "(string \<times> msgpack) list"

text \<open>
  Values of \<open>JSON.parse\<close>; an object is the list of its members (keys distinct).
\<close>

datatype json = JNull | JBool bool | JNum real | JStr string | JArr "json list"
  | JObj "(string \<times> json) list"

text \<open>
  The functions of libsodium-wrappers, msgpack-lite, hcid-js and the JavaScript runtime
  that the program calls; they are not part of the repository and are parameters of the
  model. A function that raises an exception on arguments the program can give it
  returns \<open>None\<close> there; the others are taken where the library accepts their
  arguments: seeds, keys and salts have the sizes libsodium asks for. Key pairs are (publicKey, privateKey), session keys are (sharedRx,
  sharedTx). The authenticated encryption takes message, associated data, nonce and
  key, in the order of libsodium without its unused secret-nonce argument.
  \<open>crypto_pwhash\<close> takes the key length, the password and the salt; its work factors
  are the constants \<open>OPSLIMIT_INTERACTIVE\<close>, \<open>MEMLIMIT_INTERACTIVE\<close> and
  \<open>ALG_ARGON2ID13\<close> at every call. \<open>utf8_encode\<close> is the UTF-8 encoding that
  \<open>Buffer.from\<close> and libsodium apply to a string argument.
\<close>

record libs =
  crypto_sign_seed_keypair :: "bytes \<Rightarrow> bytes \<times> bytes"
  crypto_kx_seed_keypair :: "bytes \<Rightarrow> bytes \<times> bytes"
  crypto_sign_detached :: "string \<Rightarrow> bytes \<Rightarrow> bytes"
  crypto_sign_verify_detached :: "bytes \<Rightarrow> string \<Rightarrow> bytes \<Rightarrow> bool"
  crypto_kx_server_session_keys :: "bytes \<Rightarrow> bytes \<Rightarrow> bytes \<Rightarrow> bytes \<times> bytes"
  crypto_kx_client_session_keys :: "bytes \<Rightarrow> bytes \<Rightarrow> bytes \<Rightarrow> bytes \<times> bytes"
  crypto_aead_xchacha20poly1305_ietf_encrypt ::
    "bytes \<Rightarrow> bytes option \<Rightarrow> bytes \<Rightarrow> bytes \<Rightarrow> bytes"
  crypto_aead_xchacha20poly1305_ietf_decrypt ::
    "bytes \<Rightarrow> bytes option \<Rightarrow> bytes \<Rightarrow> bytes \<Rightarrow> bytes option"
  crypto_pwhash :: "nat \<Rightarrow> string \<Rightarrow> bytes \<Rightarrow> bytes"
  to_base64 :: "bytes \<Rightarrow> base64_variant \<Rightarrow> string"
  from_base64 :: "string \<Rightarrow> base64_variant \<Rightarrow> bytes option"
  to_string :: "bytes \<Rightarrow> string option"
  utf8_encode :: "string \<Rightarrow> bytes"
  msgpack_encode :: "msgpack \<Rightarrow> bytes"
  msgpack_decode :: "bytes \<Rightarrow> msgpack option"
  hcs0_encode :: "bytes \<Rightarrow> string"
  JSON_parse :: "string \<Rightarrow> json option"
  JSON_stringify :: "json \<Rightarrow> string"

section \<open>dpki-ultralite: util\<close>

text \<open>\<open>to_base64\<close> without a variant uses libsodium's default, \<open>URLSAFE_NO_PADDING\<close>.\<close>

definition encodeId :: "libs \<Rightarrow> bytes \<Rightarrow> bytes \<Rightarrow> string" where
  "encodeId L signPub' encPub' = to_base64 L (signPub' @ encPub') URLSAFE_NO_PADDING"

text \<open>
  \<open>decodeId\<close> yields (signPub, encPub), \<open>tmp.slice(0, 32)\<close> and \<open>tmp.slice(32, 64)\<close>.
  \<open>from_base64\<close> runs in a \<open>then\<close> callback inside the promise's constructor.
\<close>

definition decodeId :: "libs \<Rightarrow> string \<Rightarrow> (bytes \<times> bytes) outcome" where
  "decodeId L ident =
     (case from_base64 L ident URLSAFE_NO_PADDING of
        None \<Rightarrow> Pending
      | Some tmp \<Rightarrow> Resolved (take 32 tmp, take 32 (drop 32 tmp)))"

definition verify :: "libs \<Rightarrow> bytes \<Rightarrow> string \<Rightarrow> string \<Rightarrow> bool outcome" where
  "verify L signature' data signerId =
     (case decodeId L signerId of
        Resolved pw \<Rightarrow> Resolved (crypto_sign_verify_detached L signature' data (fst pw))
      | _ \<Rightarrow> Pending)"

text \<open>
  \<open>pwHash(pass, salt)\<close> yields (salt, hash); \<open>rnd\<close> is the value \<open>randombytes_buf(SALTBYTES)\<close>
  returns when no salt is given.
\<close>

definition pwHash :: "libs \<Rightarrow> string \<Rightarrow> bytes option \<Rightarrow> bytes \<Rightarrow> bytes \<times> bytes" where
  "pwHash L pass salt rnd =
     (let salt' = (case salt of Some s \<Rightarrow> s | None \<Rightarrow> rnd)
      in (salt', crypto_pwhash L 32 pass salt'))"

text \<open>
  \<open>pwEnc(data, passphrase, adata)\<close>; \<open>rnd_salt\<close> and \<open>rnd_nonce\<close> are the values drawn by
  \<open>randombytes_buf(SALTBYTES)\<close> and \<open>randombytes_buf(NONCEBYTES)\<close>.
\<close>

definition pwEnc :: "libs \<Rightarrow> bytes \<Rightarrow> string \<Rightarrow> bytes option \<Rightarrow> bytes \<Rightarrow> bytes \<Rightarrow> bytes outcome" where
  "pwEnc L data passphrase adata rnd_salt rnd_nonce =
     (let pw = pwHash L passphrase None rnd_salt;
          salt = fst pw;
          secret = snd pw;
          nonce = rnd_nonce;
          ciphertext = crypto_aead_xchacha20poly1305_ietf_encrypt L data adata nonce secret
      in Resolved (msgpack_encode L
           (MMap [(''salt'', MBin salt), (''nonce'', MBin nonce), (''cipher'', MBin ciphertext)])))"

text \<open>A property read \<open>v.k\<close> on a decoded value other than \<open>null\<close>: \<open>None\<close> is \<open>undefined\<close>.\<close>

fun get_field :: "msgpack \<Rightarrow> string \<Rightarrow> msgpack option" where
  "get_field (MMap kvs) k = map_of kvs k"
| "get_field _ k = None"

text \<open>
  \<open>pwDec(data, passphrase, adata)\<close>. \<open>msgpack.decode\<close> runs before the promise is made.
  \<open>decodedData.salt\<close> is read in the promise's constructor, so the \<open>TypeError\<close> on \<open>null\<close>
  rejects the promise. A missing or \<open>null\<close> salt makes \<open>pwHash\<close> draw one (\<open>rnd\<close>).
  Every later exception (a salt, nonce or cipher that is no byte array, a failed
  authentication) is raised in a \<open>then\<close> callback.
\<close>

definition pwDec :: "libs \<Rightarrow> bytes \<Rightarrow> string \<Rightarrow> bytes option \<Rightarrow> bytes \<Rightarrow> bytes outcome" where
  "pwDec L data passphrase adata rnd =
     (case msgpack_decode L data of
        None \<Rightarrow> Thrown LibraryError
      | Some MNil \<Rightarrow> Rejected TypeError
      | Some decodedData \<Rightarrow>
          (case (case get_field decodedData ''salt'' of
                   None \<Rightarrow> Some None
                 | Some MNil \<Rightarrow> Some None
                 | Some (MBin s) \<Rightarrow> Some (Some s)
                 | Some _ \<Rightarrow> None) of
             None \<Rightarrow> Pending
           | Some salt \<Rightarrow>
               (let secret = snd (pwHash L passphrase salt rnd)
                in (case (get_field decodedData ''cipher'', get_field decodedData ''nonce'') of
                      (Some (MBin cipher), Some (MBin nonce)) \<Rightarrow>
                        (case crypto_aead_xchacha20poly1305_ietf_decrypt L cipher adata nonce secret of
                           None \<Rightarrow> Pending
                         | Some plain \<Rightarrow> Resolved plain)
                    | _ \<Rightarrow> Pending))))"

definition toBase64 :: "libs \<Rightarrow> bytes \<Rightarrow> string" where
  "toBase64 L buffer = to_base64 L buffer ORIGINAL"

definition fromBase64 :: "libs \<Rightarrow> string \<Rightarrow> bytes option" where
  "fromBase64 L str = from_base64 L str ORIGINAL"


section \<open>dpki-ultralite: Keypair\<close>

text \<open>
  The class \<open>Keypair\<close>: the identity string, the two public keys and the optional private
  halves (fields \<open>_pubkeys\<close>, \<open>_signPub\<close>, \<open>_encPub\<close>, \<open>_signPriv\<close>, \<open>_encPriv\<close>).
\<close>

record Keypair =
  pubkeys :: string
  signPub :: bytes
  encPub :: bytes
  signPriv :: "bytes option"
  encPriv :: "bytes option"

text \<open>
  \<open>newFromSeed(seed)\<close> derives both pairs from the seed, encodes the identity and
  resolves to the object that \<open>new Keypair(...)\<close> builds.
\<close>

definition newFromSeed_keypair :: "libs \<Rightarrow> bytes \<Rightarrow> Keypair" where
  "newFromSeed_keypair L seed =
     (let sgn = crypto_sign_seed_keypair L seed;
          kx = crypto_kx_seed_keypair L seed
      in \<lparr>pubkeys = encodeId L (fst sgn) (fst kx),
          signPub = fst sgn, encPub = fst kx,
          signPriv = Some (snd sgn), encPriv = Some (snd kx)\<rparr>)"

definition newFromSeed :: "libs \<Rightarrow> bytes \<Rightarrow> Keypair outcome" where
  "newFromSeed L seed = Resolved (newFromSeed_keypair L seed)"

definition getId :: "Keypair \<Rightarrow> string" where
  "getId kp = pubkeys kp"

text \<open>\<open>sign\<close> raises its error before it makes the promise.\<close>

definition sign :: "libs \<Rightarrow> Keypair \<Rightarrow> string \<Rightarrow> bytes outcome" where
  "sign L kp msg =
     (case signPriv kp of
        None \<Rightarrow> Thrown NoPrivateKey
      | Some sk \<Rightarrow> Resolved (crypto_sign_detached L msg sk))"

definition Keypair_verify :: "libs \<Rightarrow> Keypair \<Rightarrow> bytes \<Rightarrow> string \<Rightarrow> bool outcome" where
  "Keypair_verify L kp signature' msg = verify L signature' msg (pubkeys kp)"

subsection \<open>Multi-recipient encryption\<close>

text \<open>The plaintext handed to \<open>encrypt\<close>: text, or a byte array that \<open>Buffer.from\<close> copies.\<close>

datatype js_data = Str string | Buf bytes

fun Buffer_from :: "libs \<Rightarrow> js_data \<Rightarrow> bytes" where
  "Buffer_from L (Str s) = utf8_encode L s"
| "Buffer_from L (Buf b) = b"

text \<open>
  The callback of \<open>_loop(i, p)\<close> for one recipient, given the nonce it draws: the two
  entries it pushes on \<open>out\<close>, or \<open>None\<close> when it raises an exception (an identity that
  is no base64 text, or a sender without \<open>_encPriv\<close>) and pushes nothing.
\<close>

definition encrypt_slot ::
  "libs \<Rightarrow> Keypair \<Rightarrow> bytes option \<Rightarrow> bytes \<Rightarrow> bytes \<Rightarrow> string \<Rightarrow> bytes list option" where
  "encrypt_slot L kp adata symSecret nonce recipientId =
     (case decodeId L recipientId of
        Resolved key \<Rightarrow>
          (case encPriv kp of
             None \<Rightarrow> None
           | Some sk \<Rightarrow>
               (let recipPub = snd key;
                    tx = snd (crypto_kx_server_session_keys L (encPub kp) sk recipPub);
                    cipher = crypto_aead_xchacha20poly1305_ietf_encrypt L symSecret adata nonce tx
                in Some [nonce, cipher]))
      | _ \<Rightarrow> None)"

text \<open>
  The callbacks run in the order of the recipients. \<open>rnd k\<close> is the \<open>k\<close>-th value that
  \<open>randombytes_buf(NONCEBYTES)\<close> returns during the call. The loop yields \<open>out\<close>, the
  number of nonces drawn, and whether \<open>resolve\<close> was called: only the callback of the
  last index (\<open>i == recipientIds.length - 1\<close>) calls it.
\<close>

fun encrypt_loop ::
  "libs \<Rightarrow> Keypair \<Rightarrow> bytes option \<Rightarrow> bytes \<Rightarrow> (nat \<Rightarrow> bytes) \<Rightarrow> string list
     \<Rightarrow> bytes list \<Rightarrow> nat \<Rightarrow> bool \<Rightarrow> bytes list \<times> nat \<times> bool" where
  "encrypt_loop L kp adata symSecret rnd [] out k flag = (out, k, flag)"
| "encrypt_loop L kp adata symSecret rnd (r # rs) out k flag =
     (case encrypt_slot L kp adata symSecret (rnd k) r of
        None \<Rightarrow> encrypt_loop L kp adata symSecret rnd rs out k flag
      | Some slot \<Rightarrow>
          encrypt_loop L kp adata symSecret rnd rs (out @ slot) (Suc k) (flag \<or> rs = []))"

text \<open>
  \<open>encrypt(recipientIds, data, adata)\<close>; \<open>symSecret\<close> is the value of \<open>randomBytes(32)\<close>.
  With no recipient the loop body never runs, and when the last callback raises nothing
  calls \<open>resolve\<close>: the promise stays pending.
\<close>

definition encrypt ::
  "libs \<Rightarrow> Keypair \<Rightarrow> string list \<Rightarrow> js_data \<Rightarrow> bytes option \<Rightarrow> bytes \<Rightarrow> (nat \<Rightarrow> bytes)
     \<Rightarrow> bytes outcome" where
  "encrypt L kp recipientIds plaintext adata symSecret rnd =
     (case encrypt_loop L kp adata symSecret rnd recipientIds [] 0 False of
        (out, k, flag) \<Rightarrow>
          if flag
          then (let nonce = rnd k;
                    cipher = crypto_aead_xchacha20poly1305_ietf_encrypt L
                               (Buffer_from L plaintext) adata nonce symSecret
                in Resolved (msgpack_encode L (MArray (map MBin (out @ [nonce, cipher])))))
          else Pending)"

text \<open>
  The decoded ciphertext as \<open>decrypt\<close> reads it, by \<open>.length\<close> and by index: \<open>None\<close> when
  reading \<open>.length\<close> raises (\<open>null\<close>); an entry is \<open>None\<close> when it is no byte array, so
  that libsodium raises on it. The entries of a byte array are numbers; an object has
  no \<open>length\<close>, and the loop bound \<open>undefined - 2\<close> admits no index.
\<close>

fun as_bin :: "msgpack \<Rightarrow> bytes option" where
  "as_bin (MBin b) = Some b"
| "as_bin _ = None"

fun entries :: "msgpack \<Rightarrow> bytes option list option" where
  "entries MNil = None"
| "entries (MBin b) = Some (replicate (length b) None)"
| "entries (MArray vs) = Some (map as_bin vs)"
| "entries (MMap kvs) = Some []"

text \<open>
  \<open>for (let i = 0; i < cipher.length - 2; i += 2)\<close>: each slot is tried, a failure is
  passed over, and a later success overwrites \<open>symSecret\<close>.
\<close>

function decrypt_loop ::
  "libs \<Rightarrow> bytes option list \<Rightarrow> bytes option \<Rightarrow> bytes \<Rightarrow> nat \<Rightarrow> bytes option \<Rightarrow> bytes option" where
  "decrypt_loop L cipher adata rx i symSecret =
     (if i + 2 < length cipher
      then decrypt_loop L cipher adata rx (i + 2)
             (case (cipher ! i, cipher ! (i + 1)) of
                (Some n, Some c) \<Rightarrow>
                  (case crypto_aead_xchacha20poly1305_ietf_decrypt L c adata n rx of
                     Some s \<Rightarrow> Some s
                   | None \<Rightarrow> symSecret)
              | _ \<Rightarrow> symSecret)
      else symSecret)"
  by pat_completeness auto
termination
  by (relation "measure (\<lambda>(L, cipher, adata, rx, i, symSecret). length cipher - i)") auto

declare decrypt_loop.simps [simp del]

text \<open>
  \<open>decrypt(sId, cipher, adata)\<close>. \<open>msgpack.decode\<close> runs before the promise is made. The
  only call of \<open>reject\<close> is the one for an empty \<open>symSecret\<close>; every other exception is
  raised in a \<open>then\<close> callback.
\<close>

definition decrypt ::
  "libs \<Rightarrow> Keypair \<Rightarrow> string \<Rightarrow> bytes \<Rightarrow> bytes option \<Rightarrow> string outcome" where
  "decrypt L kp sId cipher adata =
     (case msgpack_decode L cipher of
        None \<Rightarrow> Thrown LibraryError
      | Some decoded \<Rightarrow>
          (case decodeId L sId of
             Resolved ident \<Rightarrow>
               (case encPriv kp of
                  None \<Rightarrow> Pending
                | Some sk \<Rightarrow>
                    (let sourceId = snd ident;
                         rx = fst (crypto_kx_client_session_keys L (encPub kp) sk sourceId)
                     in (case entries decoded of
                           None \<Rightarrow> Pending
                         | Some slots \<Rightarrow>
                             (case decrypt_loop L slots adata rx 0 None of
                                None \<Rightarrow> Rejected NotARecipient
                              | Some symSecret \<Rightarrow>
                                  (case (slots ! (length slots - 1), slots ! (length slots - 2)) of
                                     (Some c, Some n) \<Rightarrow>
                                       (case crypto_aead_xchacha20poly1305_ietf_decrypt L
                                               c adata n symSecret of
                                          None \<Rightarrow> Pending
                                        | Some plain \<Rightarrow>
                                            (case to_string L plain of
                                               None \<Rightarrow> Pending
                                             | Some s \<Rightarrow> Resolved s))
                                   | _ \<Rightarrow> Pending)))))
           | _ \<Rightarrow> Pending))"

subsection \<open>Persistence bundles\<close>

text \<open>The object \<open>{type, hint, data}\<close> that \<open>getBundle\<close> resolves to.\<close>

record keypair_bundle =
  bundle_type :: string
  bundle_hint :: string
  bundle_data :: bytes

fun opt_bin :: "bytes option \<Rightarrow> msgpack" where
  "opt_bin None = MNil"
| "opt_bin (Some b) = MBin b"

text \<open>
  \<open>getBundle(passphrase, hint)\<close>; \<open>hint\<close> is a string by its type here, so the check
  at the head of the function passes.
\<close>

definition getBundle ::
  "libs \<Rightarrow> Keypair \<Rightarrow> string \<Rightarrow> string \<Rightarrow> bytes \<Rightarrow> bytes \<Rightarrow> keypair_bundle outcome" where
  "getBundle L kp passphrase hint rnd_salt rnd_nonce =
     (case pwEnc L (msgpack_encode L
                      (MArray [MBin (signPub kp), MBin (encPub kp),
                               opt_bin (signPriv kp), opt_bin (encPriv kp)]))
                   passphrase None rnd_salt rnd_nonce of
        Resolved d \<Rightarrow> Resolved \<lparr>bundle_type = ''hcKeypair'', bundle_hint = hint, bundle_data = d\<rparr>
      | Rejected e \<Rightarrow> Pending
      | Thrown e \<Rightarrow> Rejected e
      | Pending \<Rightarrow> Pending)"

text \<open>
  The entry \<open>bundle[i]\<close> of the decoded array as the constructor of \<open>Keypair\<close> takes a
  private half: absent or \<open>null\<close> is no key, a byte array is the key, and anything else
  fails the constructor's check.
\<close>

fun priv_entry :: "msgpack list \<Rightarrow> nat \<Rightarrow> bytes option option" where
  "priv_entry vs i =
     (if i < length vs
      then (case vs ! i of MNil \<Rightarrow> Some None | MBin b \<Rightarrow> Some (Some b) | _ \<Rightarrow> None)
      else Some None)"

fun pub_entry :: "msgpack list \<Rightarrow> nat \<Rightarrow> bytes option" where
  "pub_entry vs i = (if i < length vs then as_bin (vs ! i) else None)"

text \<open>
  \<open>fromBundle(bundle, passphrase)\<close>. \<open>pwDec\<close> is called in the constructor of the promise,
  so what it throws rejects the promise; the promise it returns is only given a
  fulfilment callback. Decoding, \<open>encodeId\<close> and the constructor of \<open>Keypair\<close> run in
  \<open>then\<close> callbacks. \<open>rnd\<close> is the salt \<open>pwHash\<close> draws when the bundle holds none.
\<close>

definition fromBundle :: "libs \<Rightarrow> keypair_bundle \<Rightarrow> string \<Rightarrow> bytes \<Rightarrow> Keypair outcome" where
  "fromBundle L b passphrase rnd =
     (case pwDec L (bundle_data b) passphrase None rnd of
        Thrown e \<Rightarrow> Rejected e
      | Rejected e \<Rightarrow> Pending
      | Pending \<Rightarrow> Pending
      | Resolved encoded_bundle \<Rightarrow>
          (case msgpack_decode L encoded_bundle of
             Some (MArray vs) \<Rightarrow>
               (case (pub_entry vs 0, pub_entry vs 1, priv_entry vs 2, priv_entry vs 3) of
                  (Some sp, Some ep, Some spriv, Some epriv) \<Rightarrow>
                    Resolved \<lparr>pubkeys = encodeId L sp ep, signPub = sp, encPub = ep,
                              signPriv = spriv, encPriv = epriv\<rparr>
                | _ \<Rightarrow> Pending)
           | _ \<Rightarrow> Pending))"

section \<open>keyManagement.ts: regenerating a keypair\<close>

text \<open>
  What a salt callback resolves to: \<open>undefined\<close> or \<open>null\<close>, a string, or a
  \<open>Uint8Array\<close>. In \<open>if (registeredSalt)\<close> the empty string counts as absent and every
  byte array as present.
\<close>

datatype salt_value = SaltAbsent | SaltString string | SaltBytes bytes

fun truthy_salt :: "salt_value \<Rightarrow> bool" where
  "truthy_salt SaltAbsent = False"
| "truthy_salt (SaltString s) = (s \<noteq> [])"
| "truthy_salt (SaltBytes b) = True"

text \<open>
  The argument \<open>registeredSalt.slice(0, 16)\<close> as \<open>pwHash\<close> uses it in \<open>salt || ...\<close>:
  an empty string makes it draw a salt, other text is taken as its UTF-8 bytes.
\<close>

fun salt_slice :: "libs \<Rightarrow> salt_value \<Rightarrow> bytes option" where
  "salt_slice L SaltAbsent = None"
| "salt_slice L (SaltString s) = (if take 16 s = [] then None else Some (utf8_encode L (take 16 s)))"
| "salt_slice L (SaltBytes b) = Some (take 16 b)"

text \<open>
  \<open>regenerateReadwriteKeypair(email, password, getRegisteredSaltCallback)\<close>. The whole
  body is inside \<open>try\<close>; the handler returns the value of \<open>console.error\<close>, which is
  \<open>undefined\<close>, and a falsy salt falls through to the end of the function. The result
  \<open>None\<close> is \<open>undefined\<close>.
\<close>

definition regenerateReadwriteKeypair ::
  "libs \<Rightarrow> string \<Rightarrow> string \<Rightarrow> (string \<Rightarrow> salt_value outcome) \<Rightarrow> bytes
     \<Rightarrow> Keypair option outcome" where
  "regenerateReadwriteKeypair L email password getRegisteredSaltCallback rnd =
     (case getRegisteredSaltCallback email of
        Resolved registeredSalt \<Rightarrow>
          if truthy_salt registeredSalt
          then (let hash = snd (pwHash L password (salt_slice L registeredSalt) rnd)
                in (case newFromSeed L hash of
                      Resolved kp \<Rightarrow> Resolved (Some kp)
                    | Rejected e \<Rightarrow> Resolved None
                    | Thrown e \<Rightarrow> Resolved None
                    | Pending \<Rightarrow> Pending))
          else Resolved None
      | Rejected e \<Rightarrow> Resolved None
      | Thrown e \<Rightarrow> Resolved None
      | Pending \<Rightarrow> Pending)"

section \<open>index.ts: the session\<close>

text \<open>The \<open>callParams\<close> that \<open>_preCall\<close> builds; its member \<open>function\<close> is the field
  \<open>function_name\<close>.\<close>

record call_params =
  agentId :: "string option"
  happId :: "string option"
  instanceId :: string
  zome :: "string option"
  function_name :: "string option"
  args :: json
  signature :: string

text \<open>The parameters of the calls the program makes on the channel.\<close>

datatype rpc_params =
    IdentifyParams "string option"
  | ClientSignatureParams string string
  | CallParams call_params

text \<open>
  The channel is the abstract collaborator of the interface: \<open>call(method, params)\<close>,
  \<open>subscribe(event)\<close> and \<open>on(event, handler)\<close>. Its state is the calls it has received,
  the event names subscribed to, and one entry per attached listener. Every listener
  the program attaches is the same closure over the module's variables, so an entry is
  the event name it is attached to.
\<close>

record WebsocketClient =
  calls :: "(string \<times> rpc_params) list"
  subscriptions :: "string list"
  listeners :: "string list"

text \<open>
  The variables of the module \<open>hClient\<close>: \<open>keypair\<close>, \<open>websocket\<close>, \<open>_happId\<close>, and the
  number of times \<open>triggerLoginPrompt\<close> has been started.
\<close>

record hClient =
  keypair :: "Keypair option"
  websocket :: "WebsocketClient option"
  module_happId :: "string option"
  loginPrompts :: nat

text \<open>
  A call on the channel is recorded; the host (a parameter) decides how its promise is
  settled.
\<close>

definition ws_call ::
  "(string \<Rightarrow> rpc_params \<Rightarrow> string outcome) \<Rightarrow> WebsocketClient \<Rightarrow> string \<Rightarrow> rpc_params
     \<Rightarrow> string outcome \<times> WebsocketClient" where
  "ws_call host ws meth ps = (host meth ps, ws\<lparr>calls := calls ws @ [(meth, ps)]\<rparr>)"

definition getCurrentAgentId :: "libs \<Rightarrow> hClient \<Rightarrow> string option" where
  "getCurrentAgentId L st =
     (case keypair st of
        Some kp \<Rightarrow> Some (hcs0_encode L (signPub kp))
      | None \<Rightarrow> None)"

text \<open>The template \<open>agent/${agentId}/sign\<close>; \<open>undefined\<close> is printed as its name.\<close>

definition sign_event :: "string option \<Rightarrow> string" where
  "sign_event a = ''agent/'' @ (case a of None \<Rightarrow> ''undefined'' | Some s \<Rightarrow> s) @ ''/sign''"

text \<open>
  \<open>sendClientSignature(kp)\<close>: the assignment to \<open>keypair\<close> comes before the test of
  \<open>websocket\<close>; a failed \<open>holo/identify\<close> ends the function at the \<open>await\<close>.
\<close>

definition sendClientSignature ::
  "libs \<Rightarrow> (string \<Rightarrow> rpc_params \<Rightarrow> string outcome) \<Rightarrow> hClient \<Rightarrow> Keypair option
     \<Rightarrow> unit outcome \<times> hClient" where
  "sendClientSignature L host st kp =
     (let st1 = st\<lparr>keypair := kp\<rparr>
      in (case websocket st1 of
            Some ws \<Rightarrow>
              (let a = getCurrentAgentId L st1;
                   r = ws_call host ws ''holo/identify'' (IdentifyParams a)
               in (case fst r of
                     Resolved _ \<Rightarrow>
                       (let event = sign_event a;
                            ws2 = (snd r)\<lparr>subscriptions := subscriptions (snd r) @ [event],
                                         listeners := listeners (snd r) @ [event]\<rparr>
                        in (Resolved (), st1\<lparr>websocket := Some ws2\<rparr>))
                   | Rejected e \<Rightarrow> (Rejected e, st1\<lparr>websocket := Some (snd r)\<rparr>)
                   | Thrown e \<Rightarrow> (Rejected e, st1\<lparr>websocket := Some (snd r)\<rparr>)
                   | Pending \<Rightarrow> (Pending, st1\<lparr>websocket := Some (snd r)\<rparr>)))
          | None \<Rightarrow> (Rejected NoChannel, st1)))"

text \<open>
  The listener \<open>async ({ entry, id }) => ...\<close>. It reads \<open>keypair\<close> and \<open>websocket\<close> when
  the event arrives. Without a keypair or a private signing key it raises an exception
  and makes no call.
\<close>

definition sign_listener ::
  "libs \<Rightarrow> (string \<Rightarrow> rpc_params \<Rightarrow> string outcome) \<Rightarrow> string \<Rightarrow> string \<Rightarrow> hClient \<Rightarrow> hClient" where
  "sign_listener L host entry ident st =
     (case keypair st of
        None \<Rightarrow> st
      | Some kp \<Rightarrow>
          (case sign L kp entry of
             Resolved sg \<Rightarrow>
               (case websocket st of
                  Some ws \<Rightarrow>
                    st\<lparr>websocket := Some (snd (ws_call host ws ''holo/clientSignature''
                                                (ClientSignatureParams (toBase64 L sg) ident)))\<rparr>
                | None \<Rightarrow> st)
           | _ \<Rightarrow> st))"

text \<open>
  The host pushes \<open>{entry, id}\<close> on an event name: when the name is subscribed to, every
  listener attached to it runs, in the order of attachment.
\<close>

definition emit_event ::
  "libs \<Rightarrow> (string \<Rightarrow> rpc_params \<Rightarrow> string outcome) \<Rightarrow> hClient \<Rightarrow> string \<Rightarrow> string \<Rightarrow> string
     \<Rightarrow> hClient" where
  "emit_event L host st event entry ident =
     (case websocket st of
        None \<Rightarrow> st
      | Some ws \<Rightarrow>
          if event \<in> set (subscriptions ws)
          then fold (\<lambda>_. sign_listener L host entry ident)
                 (filter (\<lambda>e. e = event) (listeners ws)) st
          else st)"

subsection \<open>The call hooks\<close>

text \<open>\<open>callString.split('/')\<close>: the result always has a first element.\<close>

fun split_slash :: "string \<Rightarrow> string list" where
  "split_slash [] = [[]]"
| "split_slash (c # cs) =
     (if c = CHR ''/'' then [] # split_slash cs
      else (case split_slash cs of
              [] \<Rightarrow> [[c]]
            | seg # segs \<Rightarrow> (c # seg) # segs))"

definition nth_opt :: "'a list \<Rightarrow> nat \<Rightarrow> 'a option" where
  "nth_opt xs i = (if i < length xs then Some (xs ! i) else None)"

text \<open>
  \<open>_preCall(callString, params)\<close>, an \<open>async\<close> function: what it or \<open>sign\<close> throws rejects
  its promise. It yields the new call string and the new parameters.
\<close>

definition preCall :: "libs \<Rightarrow> hClient \<Rightarrow> string \<Rightarrow> json \<Rightarrow> (string \<times> call_params) outcome" where
  "preCall L st callString params =
     (case keypair st of
        None \<Rightarrow> Rejected NoKeys
      | Some kp \<Rightarrow>
          (let segs = split_slash callString;
               call = JObj [(''method'', JStr callString), (''params'', params)]
           in (case sign L kp (JSON_stringify L call) of
                 Resolved sg \<Rightarrow>
                   Resolved (''holo/call'',
                     \<lparr>agentId = getCurrentAgentId L st,
                      happId = module_happId st,
                      instanceId = hd segs,
                      zome = nth_opt segs 1,
                      function_name = nth_opt segs 2,
                      args = params,
                      signature = toBase64 L sg\<rparr>)
               | Rejected e \<Rightarrow> Rejected e
               | Thrown e \<Rightarrow> Rejected e
               | Pending \<Rightarrow> Pending)))"

text \<open>
  Reading \<open>responseJson.Err\<close> and \<open>.code\<close>: a property read on \<open>null\<close> raises, on a value
  that is no object it gives \<open>undefined\<close>.
\<close>

fun json_truthy :: "json \<Rightarrow> bool" where
  "json_truthy JNull = False"
| "json_truthy (JBool b) = b"
| "json_truthy (JNum n) = (n \<noteq> 0)"
| "json_truthy (JStr s) = (s \<noteq> [])"
| "json_truthy (JArr vs) = True"
| "json_truthy (JObj kvs) = True"

fun json_field :: "json \<Rightarrow> string \<Rightarrow> json option" where
  "json_field (JObj kvs) k = map_of kvs k"
| "json_field _ k = None"

text \<open>
  The test in \<open>_postCall\<close>, with its \<open>try\<close>: \<open>JSON.parse\<close> raising, or \<open>null.Err\<close>, is
  caught and logged.
\<close>

definition login_required :: "libs \<Rightarrow> string \<Rightarrow> bool" where
  "login_required L response =
     (case JSON_parse L response of
        None \<Rightarrow> False
      | Some JNull \<Rightarrow> False
      | Some responseJson \<Rightarrow>
          (case json_field responseJson ''Err'' of
             None \<Rightarrow> False
           | Some err \<Rightarrow> json_truthy err \<and> json_field err ''code'' = Some (JNum 401)))"

text \<open>\<open>_postCall(response)\<close>: it starts \<open>triggerLoginPrompt\<close> and returns \<open>response\<close>.\<close>

definition postCall :: "libs \<Rightarrow> hClient \<Rightarrow> string \<Rightarrow> string \<times> hClient" where
  "postCall L st response =
     (if login_required L response
      then (response, st\<lparr>loginPrompts := Suc (loginPrompts st)\<rparr>)
      else (response, st))"

text \<open>
  The function \<open>call(...)(params)\<close> that \<open>makeWebClient\<close> returns, with the default hooks:
  \<open>preCall\<close> is awaited first, then the call goes out on the connection, which
  \<open>_postConnect\<close> has stored in \<open>websocket\<close>, and \<open>postCall\<close> sees the response. The
  function is \<open>async\<close>, so an exception of the channel's \<open>call\<close> rejects its promise. The
  function exists only once \<open>connect\<close> has run \<open>_postConnect\<close>; for a session without a
  connection, which therefore does not arise, the model reports that there is no channel.
\<close>

definition client_call ::
  "libs \<Rightarrow> (string \<Rightarrow> rpc_params \<Rightarrow> string outcome) \<Rightarrow> hClient \<Rightarrow> string \<Rightarrow> json
     \<Rightarrow> string outcome \<times> hClient" where
  "client_call L host st callString params =
     (case preCall L st callString params of
        Resolved (newCallString, newParams) \<Rightarrow>
          (case websocket st of
             None \<Rightarrow> (Rejected NoChannel, st)
           | Some ws \<Rightarrow>
               (let r = ws_call host ws newCallString (CallParams newParams);
                    st1 = st\<lparr>websocket := Some (snd r)\<rparr>
                in (case fst r of
                      Resolved response \<Rightarrow>
                        (let pc = postCall L st1 response in (Resolved (fst pc), snd pc))
                    | Rejected e \<Rightarrow> (Rejected e, st1)
                    | Thrown e \<Rightarrow> (Rejected e, st1)
                    | Pending \<Rightarrow> (Pending, st1))))
      | Rejected e \<Rightarrow> (Rejected e, st)
      | Thrown e \<Rightarrow> (Rejected e, st)
      | Pending \<Rightarrow> (Pending, st))"

section \<open>Notions used in the statements\<close>

text \<open>What can be observed of a session's channel.\<close>

definition channel_calls :: "hClient \<Rightarrow> (string \<times> rpc_params) list" where
  "channel_calls st = (case websocket st of None \<Rightarrow> [] | Some ws \<Rightarrow> calls ws)"

definition channel_subscriptions :: "hClient \<Rightarrow> string list" where
  "channel_subscriptions st = (case websocket st of None \<Rightarrow> [] | Some ws \<Rightarrow> subscriptions ws)"

definition channel_listeners :: "hClient \<Rightarrow> string list" where
  "channel_listeners st = (case websocket st of None \<Rightarrow> [] | Some ws \<Rightarrow> listeners ws)"

fun is_rejected :: "'a outcome \<Rightarrow> bool" where
  "is_rejected (Rejected e) = True"
| "is_rejected _ = False"

text \<open>
  A parsed response encodes \<open>{Err: {code: 401}}\<close>: it is an object whose member \<open>Err\<close> is
  an object whose member \<open>code\<close> is the number 401.
\<close>

definition encodes_Err_401 :: "json \<Rightarrow> bool" where
  "encodes_Err_401 j =
     (case j of
        JObj kvs \<Rightarrow>
          (case map_of kvs ''Err'' of
             Some (JObj ekvs) \<Rightarrow> map_of ekvs ''code'' = Some (JNum 401)
           | _ \<Rightarrow> False)
      | _ \<Rightarrow> False)"

text \<open>
  A lookup of a registered salt found none: the callback resolved to a value that counts
  as absent, or it failed.
\<close>

fun salt_missing :: "salt_value outcome \<Rightarrow> bool" where
  "salt_missing (Resolved v) = (\<not> truthy_salt v)"
| "salt_missing (Rejected e) = True"
| "salt_missing (Thrown e) = True"
| "salt_missing Pending = False"

text \<open>An operation resolved to a bundle with the type tag \<open>t\<close>.\<close>

fun has_type_tag :: "string \<Rightarrow> keypair_bundle outcome \<Rightarrow> bool" where
  "has_type_tag t (Resolved b) = (bundle_type b = t)"
| "has_type_tag t _ = False"

text \<open>The calls of a list that go to \<open>holo/clientSignature\<close>.\<close>

definition clientSignature_calls ::
  "(string \<times> rpc_params) list \<Rightarrow> (string \<times> rpc_params) list" where
  "clientSignature_calls cs = filter (\<lambda>c. fst c = ''holo/clientSignature'') cs"

text \<open>
  The wrapped secrets that \<open>encrypt\<close> pushes for recipients with the public encryption
  keys \<open>rps\<close>, from the \<open>k\<close>-th nonce on: for each a nonce and the secret encrypted
  under the sender's transport key for that recipient.
\<close>

fun wrapped ::
  "libs \<Rightarrow> bytes \<Rightarrow> bytes \<Rightarrow> bytes option \<Rightarrow> bytes \<Rightarrow> (nat \<Rightarrow> bytes) \<Rightarrow> nat \<Rightarrow> bytes list
     \<Rightarrow> bytes list" where
  "wrapped L pk sk adata symSecret rnd k [] = []"
| "wrapped L pk sk adata symSecret rnd k (rp # rps) =
     rnd k
     # crypto_aead_xchacha20poly1305_ietf_encrypt L symSecret adata (rnd k)
         (snd (crypto_kx_server_session_keys L pk sk rp))
     # wrapped L pk sk adata symSecret rnd (Suc k) rps"

section \<open>What the program relies on in the libraries\<close>

text \<open>
  The properties of the external functions under which the program's round trips are
  stated. The second parts of \<open>kx_ok\<close> and \<open>aead_ok\<close> and all of \<open>pwhash_ok\<close> idealise
  the cryptography: distinct keys never collide, and a ciphertext never authenticates
  under another key.
\<close>

definition base64_ok :: "libs \<Rightarrow> bool" where
  "base64_ok L = (\<forall>b v. from_base64 L (to_base64 L b v) v = Some b)"

definition pubkey_sizes_ok :: "libs \<Rightarrow> bool" where
  "pubkey_sizes_ok L =
     (\<forall>seed. length (fst (crypto_sign_seed_keypair L seed)) = 32
           \<and> length (fst (crypto_kx_seed_keypair L seed)) = 32)"

definition sign_ok :: "libs \<Rightarrow> bool" where
  "sign_ok L =
     (\<forall>seed m. crypto_sign_verify_detached L
                 (crypto_sign_detached L m (snd (crypto_sign_seed_keypair L seed))) m
                 (fst (crypto_sign_seed_keypair L seed)))"

text \<open>
  The transport key the sender (the server side, seed \<open>s\<close>) derives for a recipient is
  the receive key that recipient (the client side, seed \<open>c\<close>) derives for the sender,
  and it is not the receive key of a client with another public key.
\<close>

definition kx_ok :: "libs \<Rightarrow> bool" where
  "kx_ok L =
     ((\<forall>s c. snd (crypto_kx_server_session_keys L
                    (fst (crypto_kx_seed_keypair L s)) (snd (crypto_kx_seed_keypair L s))
                    (fst (crypto_kx_seed_keypair L c)))
           = fst (crypto_kx_client_session_keys L
                    (fst (crypto_kx_seed_keypair L c)) (snd (crypto_kx_seed_keypair L c))
                    (fst (crypto_kx_seed_keypair L s))))
    \<and> (\<forall>s c c'. fst (crypto_kx_seed_keypair L c) \<noteq> fst (crypto_kx_seed_keypair L c') \<longrightarrow>
             snd (crypto_kx_server_session_keys L
                    (fst (crypto_kx_seed_keypair L s)) (snd (crypto_kx_seed_keypair L s))
                    (fst (crypto_kx_seed_keypair L c)))
           \<noteq> fst (crypto_kx_client_session_keys L
                    (fst (crypto_kx_seed_keypair L c')) (snd (crypto_kx_seed_keypair L c'))
                    (fst (crypto_kx_seed_keypair L s)))))"

definition aead_ok :: "libs \<Rightarrow> bool" where
  "aead_ok L =
     ((\<forall>m ad n k. crypto_aead_xchacha20poly1305_ietf_decrypt L
                     (crypto_aead_xchacha20poly1305_ietf_encrypt L m ad n k) ad n k = Some m)
    \<and> (\<forall>m ad n n' k k'. k \<noteq> k' \<longrightarrow>
           crypto_aead_xchacha20poly1305_ietf_decrypt L
             (crypto_aead_xchacha20poly1305_ietf_encrypt L m ad n k) ad n' k' = None))"

definition pwhash_ok :: "libs \<Rightarrow> bool" where
  "pwhash_ok L =
     (\<forall>p p' salt. p \<noteq> p' \<longrightarrow> crypto_pwhash L 32 p salt \<noteq> crypto_pwhash L 32 p' salt)"

text \<open>msgpack decodes what the program encodes: arrays of byte arrays and \<open>nil\<close>, and the
  object of \<open>pwEnc\<close>.\<close>

definition msgpack_ok :: "libs \<Rightarrow> bool" where
  "msgpack_ok L =
     ((\<forall>xs. msgpack_decode L (msgpack_encode L (MArray (map opt_bin xs)))
             = Some (MArray (map opt_bin xs)))
    \<and> (\<forall>s n c. msgpack_decode L (msgpack_encode L
                     (MMap [(''salt'', MBin s), (''nonce'', MBin n), (''cipher'', MBin c)]))
             = Some (MMap [(''salt'', MBin s), (''nonce'', MBin n), (''cipher'', MBin c)])))"

definition utf8_ok :: "libs \<Rightarrow> bool" where
  "utf8_ok L = (\<forall>s. to_string L (utf8_encode L s) = Some s)"

section \<open>An instance of the libraries\<close>

text \<open>
  A small, insecure instance of the library interface that has every property above:
  keys are used in the clear. It shows that the properties can hold together and
  gives the statements below concrete runs.
\<close>

definition byte_of_char :: "char \<Rightarrow> 8 word" where
  "byte_of_char c = of_nat (of_char c)"

definition char_of_byte :: "8 word \<Rightarrow> char" where
  "char_of_byte w = char_of (unat w)"

definition pad32 :: "bytes \<Rightarrow> bytes" where
  "pad32 s = take 32 (s @ replicate 32 0)"

text \<open>Bytes framed so that no framing is a prefix of another: each byte follows a 1,
  and a 0 ends the run.\<close>

fun frame :: "bytes \<Rightarrow> bytes" where
  "frame [] = [0]"
| "frame (x # xs) = 1 # x # frame xs"

text \<open>Removes the framing of \<open>k\<close> from the front of \<open>c\<close>, when it is there.\<close>

fun unframe :: "bytes \<Rightarrow> bytes \<Rightarrow> bytes option" where
  "unframe [] [] = None"
| "unframe [] (t # c) = (if t = 0 then Some c else None)"
| "unframe (x # k) (t # y # c) = (if t = 1 \<and> y = x then unframe k c else None)"
| "unframe (x # k) _ = None"

fun plain_item :: "bytes option \<Rightarrow> bytes" where
  "plain_item None = [2]"
| "plain_item (Some b) = 3 # frame b"

fun plain_member :: "string \<times> msgpack \<Rightarrow> bytes" where
  "plain_member (k, v) = plain_item (Some (map byte_of_char k)) @ plain_item (as_bin v)"

fun plain_encode :: "msgpack \<Rightarrow> bytes" where
  "plain_encode MNil = [2]"
| "plain_encode (MBin b) = 3 # frame b"
| "plain_encode (MArray vs) = 4 # concat (map (\<lambda>v. plain_item (as_bin v)) vs)"
| "plain_encode (MMap kvs) = 5 # concat (map plain_member kvs)"

datatype scan_state = Idle | InBin bytes | InBinEsc bytes

fun scan :: "bytes option list \<Rightarrow> scan_state \<Rightarrow> bytes \<Rightarrow> bytes option list option" where
  "scan items Idle [] = Some items"
| "scan items _ [] = None"
| "scan items Idle (t # r) =
     (if t = 2 then scan (items @ [None]) Idle r
      else if t = 3 then scan items (InBin []) r
      else None)"
| "scan items (InBin acc) (t # r) =
     (if t = 0 then scan (items @ [Some acc]) Idle r
      else if t = 1 then scan items (InBinEsc acc) r
      else None)"
| "scan items (InBinEsc acc) (t # r) = scan items (InBin (acc @ [t])) r"

fun members :: "bytes option list \<Rightarrow> (string \<times> msgpack) list option" where
  "members [] = Some []"
| "members (Some k # v # r) =
     (case members r of
        None \<Rightarrow> None
      | Some kvs \<Rightarrow> Some ((map char_of_byte k, opt_bin v) # kvs))"
| "members _ = None"

fun plain_decode :: "bytes \<Rightarrow> msgpack option" where
  "plain_decode [] = None"
| "plain_decode (t # r) =
     (if t = 4 then map_option (\<lambda>items. MArray (map opt_bin items)) (scan [] Idle r)
      else if t = 5 then
        (case scan [] Idle r of
           None \<Rightarrow> None
         | Some items \<Rightarrow> map_option MMap (members items))
      else (case scan [] Idle (t # r) of
              Some [v] \<Rightarrow> Some (opt_bin v)
            | _ \<Rightarrow> None))"

text \<open>The one document the instance's \<open>JSON.parse\<close> reads, apart from \<open>null\<close>:
  \<open>{"Err":{"code":401}}\<close>.\<close>

definition unauthorized_response :: string where
  "unauthorized_response =
     ''{'' @ [CHR 0x22] @ ''Err'' @ [CHR 0x22] @ '':{'' @ [CHR 0x22] @ ''code'' @ [CHR 0x22]
       @ '':401}}''"

definition plain_libs :: libs where
  "plain_libs =
     \<lparr>crypto_sign_seed_keypair = (\<lambda>seed. (pad32 seed, pad32 seed)),
      crypto_kx_seed_keypair = (\<lambda>seed. (pad32 seed, pad32 seed)),
      crypto_sign_detached = (\<lambda>m sk. sk @ map byte_of_char m),
      crypto_sign_verify_detached = (\<lambda>sg m pk. sg = pk @ map byte_of_char m),
      crypto_kx_server_session_keys = (\<lambda>pk sk other. (other, other)),
      crypto_kx_client_session_keys = (\<lambda>pk sk other. (pk, pk)),
      crypto_aead_xchacha20poly1305_ietf_encrypt = (\<lambda>m ad n k. frame k @ m),
      crypto_aead_xchacha20poly1305_ietf_decrypt = (\<lambda>c ad n k. unframe k c),
      crypto_pwhash = (\<lambda>n p salt. map byte_of_char p),
      to_base64 = (\<lambda>b v. map char_of_byte b),
      from_base64 = (\<lambda>s v. Some (map byte_of_char s)),
      to_string = (\<lambda>b. Some (map char_of_byte b)),
      utf8_encode = (\<lambda>s. map byte_of_char s),
      msgpack_encode = plain_encode,
      msgpack_decode = plain_decode,
      hcs0_encode = (\<lambda>b. map char_of_byte b),
      JSON_parse = (\<lambda>s. if s = unauthorized_response
                          then Some (JObj [(''Err'', JObj [(''code'', JNum 401)])])
                          else if s = ''null'' then Some JNull else None),
      JSON_stringify = (\<lambda>j. ''{}'')\<rparr>"

text \<open>A host that answers every call, an open channel nothing has used yet, and a
  session connected to it with no keypair.\<close>

definition answering_host :: "string \<Rightarrow> rpc_params \<Rightarrow> string outcome" where
  "answering_host meth ps = Resolved ''{}''"

definition fresh_channel :: WebsocketClient where
  "fresh_channel = \<lparr>calls = [], subscriptions = [], listeners = []\<rparr>"

definition connected_session :: hClient where
  "connected_session = \<lparr>keypair = None, websocket = Some fresh_channel,
                 module_happId = Some ''happ'', loginPrompts = 0\<rparr>"

text \<open>
  A text encoding in the manner of UTF-8: a byte below 128 stands for the character
  with that code, a higher character is written as the lead byte 195 and its code, and
  every other sequence of bytes is no text, so that decoding it fails.
\<close>

fun text_char :: "char \<Rightarrow> bytes" where
  "text_char c =
     (if byte_of_char c < 128 then [byte_of_char c] else [195, byte_of_char c])"

definition text_encode :: "string \<Rightarrow> bytes" where
  "text_encode s = concat (map text_char s)"

fun text_decode :: "bytes \<Rightarrow> string option" where
  "text_decode [] = Some []"
| "text_decode [x] = (if x < 128 then Some [char_of_byte x] else None)"
| "text_decode (x # y # r) =
     (if x < 128 then map_option ((#) (char_of_byte x)) (text_decode (y # r))
      else if x = 195 \<and> 128 \<le> y then map_option ((#) (char_of_byte y)) (text_decode r)
      else None)"

text \<open>The instance above with this encoding for \<open>to_string\<close> and for strings given as
  bytes.\<close>

definition text_libs :: libs where
  "text_libs = plain_libs\<lparr>to_string := text_decode, utf8_encode := text_encode\<rparr>"
section \<open>Properties of the entropy combination\<close>

lemma XorUint8Array_loop_length:
  "length (XorUint8Array_loop a b i r) = length r"
proof (induction a b i r rule: XorUint8Array_loop.induct)
  case (1 a b i r)
  then show ?case
    by (subst XorUint8Array_loop.simps) simp
qed

lemma XorUint8Array_loop_nth:
  "length r = length a \<Longrightarrow> k < length a \<Longrightarrow>
   XorUint8Array_loop a b i r ! k =
     (if i \<le> k then (a ! k) XOR (byte_at b k) else r ! k)"
proof (induction a b i r rule: XorUint8Array_loop.induct)
  case (1 a b i r)
  show ?case
  proof (cases "i < length a")
    case True
    have "XorUint8Array_loop a b i r ! k =
          XorUint8Array_loop a b (Suc i) (r[i := (a ! i) XOR (byte_at b i)]) ! k"
      using True by (subst XorUint8Array_loop.simps) simp
    also have "\<dots> = (if Suc i \<le> k then (a ! k) XOR (byte_at b k)
                       else (r[i := (a ! i) XOR (byte_at b i)]) ! k)"
      using 1 True by simp
    also have "\<dots> = (if i \<le> k then (a ! k) XOR (byte_at b k) else r ! k)"
      using 1 True by (cases "i = k") (auto simp: nth_list_update)
    finally show ?thesis .
  next
    case False
    with 1 show ?thesis
      by (subst XorUint8Array_loop.simps) simp
  qed
qed

lemma XorUint8Array_length: "length (XorUint8Array a b) = length a"
  by (simp add: XorUint8Array_def XorUint8Array_loop_length)

lemma XorUint8Array_nth:
  "k < length a \<Longrightarrow> XorUint8Array a b ! k = (a ! k) XOR (byte_at b k)"
  by (simp add: XorUint8Array_def XorUint8Array_loop_nth)

lemma XorUint8Array_cancel: "XorUint8Array (XorUint8Array a b) b = a"
  by (rule nth_equalityI)
     (simp_all add: XorUint8Array_length XorUint8Array_nth xor.assoc)

text \<open>
  Claim C8. For all 32-byte arrays \<open>a\<close> and \<open>b\<close>, combining the combination of
  \<open>a\<close> and \<open>b\<close> with \<open>b\<close> again gives \<open>a\<close> back; the combination has 32 bytes
  and is the bytewise exclusive-or of its arguments.
\<close>

theorem C8_combine_self_inverse:
  assumes "length a = 32" and "length b = 32"
  shows "XorUint8Array (XorUint8Array a b) b = a
       \<and> length (XorUint8Array a b) = 32
       \<and> (\<forall>i<32. XorUint8Array a b ! i = (a ! i) XOR (b ! i))"
  using assms
  by (simp add: XorUint8Array_cancel XorUint8Array_length XorUint8Array_nth byte_at_def)

theorem C8_combine_self_inverse_witness:
  "XorUint8Array (XorUint8Array (replicate 32 0) (replicate 32 255)) (replicate 32 255)
     = replicate 32 0
   \<and> length (XorUint8Array (replicate 32 0) (replicate 32 255)) = 32
   \<and> XorUint8Array (replicate 32 0) (replicate 32 255) ! 5 = 255"
  using C8_combine_self_inverse [of "replicate 32 0" "replicate 32 255"]
  by simp

section \<open>The instance has the assumed properties\<close>

lemma byte_of_char_inverse: "char_of_byte (byte_of_char c) = c"
  by (simp add: char_of_byte_def byte_of_char_def unat_of_nat)

lemma word_of_unat_mod: "word_of_nat (unat w mod 256) = (w :: 8 word)"
proof -
  have "unat w < 256"
    using unsigned_less [of w, where ?'a = nat] by simp
  then show ?thesis by simp
qed

lemma char_of_byte_inverse: "byte_of_char (char_of_byte w) = w"
  by (simp add: char_of_byte_def byte_of_char_def word_of_unat_mod)

lemma map_byte_of_char_inverse: "map char_of_byte (map byte_of_char s) = s"
  by (induction s) (simp_all add: byte_of_char_inverse)

lemma map_char_of_byte_inverse: "map byte_of_char (map char_of_byte b) = b"
  by (induction b) (simp_all add: char_of_byte_inverse)

lemma map_comp_byte_of_char: "map (char_of_byte \<circ> byte_of_char) s = s"
  by (induction s) (simp_all add: byte_of_char_inverse)

lemma map_comp_char_of_byte: "map (byte_of_char \<circ> char_of_byte) b = b"
  by (induction b) (simp_all add: char_of_byte_inverse)

lemma map_byte_of_char_inj: "map byte_of_char p = map byte_of_char q \<Longrightarrow> p = q"
  by (metis map_byte_of_char_inverse)

lemma length_pad32: "length (pad32 s) = 32"
  by (simp add: pad32_def)

lemma unframe_frame: "unframe k (frame k @ m) = Some m"
  by (induction k) simp_all

lemma unframe_other: "k \<noteq> k' \<Longrightarrow> unframe k' (frame k @ m) = None"
proof (induction k' arbitrary: k)
  case Nil
  then show ?case by (cases k) simp_all
next
  case (Cons x k')
  show ?case
  proof (cases k)
    case Nil
    then show ?thesis by (cases m) simp_all
  next
    case (Cons y k2)
    with Cons.prems Cons.IH [of k2] show ?thesis by auto
  qed
qed

lemma scan_frame:
  "scan items (InBin acc) (frame b @ r) = scan (items @ [Some (acc @ b)]) Idle r"
  by (induction b arbitrary: acc) simp_all

lemma scan_item: "scan items Idle (plain_item x @ r) = scan (items @ [x]) Idle r"
  by (cases x) (simp_all add: scan_frame)

lemma scan_items:
  "scan items Idle (concat (map plain_item xs) @ r) = scan (items @ xs) Idle r"
  by (induction xs arbitrary: items) (simp_all add: scan_item)

lemma as_bin_opt_bin: "as_bin (opt_bin x) = x"
  by (cases x) simp_all

lemma plain_decode_array:
  "plain_decode (plain_encode (MArray (map opt_bin xs))) = Some (MArray (map opt_bin xs))"
proof -
  have "scan [] Idle (concat (map plain_item xs) @ []) = scan ([] @ xs) Idle []"
    by (rule scan_items)
  then show ?thesis
    by (simp add: comp_def as_bin_opt_bin)
qed

lemma plain_decode_object:
  "plain_decode (plain_encode (MMap [(''salt'', MBin s), (''nonce'', MBin n), (''cipher'', MBin c)]))
     = Some (MMap [(''salt'', MBin s), (''nonce'', MBin n), (''cipher'', MBin c)])"
proof -
  let ?items = "[Some (map byte_of_char ''salt''), Some s,
                 Some (map byte_of_char ''nonce''), Some n,
                 Some (map byte_of_char ''cipher''), Some c]"
  have "scan [] Idle (concat (map plain_item ?items) @ []) = scan ([] @ ?items) Idle []"
    by (rule scan_items)
  then have "scan [] Idle (concat (map plain_item ?items)) = Some ?items"
    by simp
  moreover have "concat (map plain_member
                   [(''salt'', MBin s), (''nonce'', MBin n), (''cipher'', MBin c)])
                 = concat (map plain_item ?items)"
    by simp
  moreover have "members ?items
                 = Some [(''salt'', MBin s), (''nonce'', MBin n), (''cipher'', MBin c)]"
    using map_byte_of_char_inverse [of "''salt''"] map_byte_of_char_inverse [of "''nonce''"]
      map_byte_of_char_inverse [of "''cipher''"]
    by simp
  ultimately show ?thesis
    by (simp del: concat.simps list.map plain_member.simps)
qed

lemma plain_base64_ok: "base64_ok plain_libs"
  by (simp add: base64_ok_def plain_libs_def map_comp_char_of_byte)

lemma plain_pubkey_sizes_ok: "pubkey_sizes_ok plain_libs"
  by (simp add: pubkey_sizes_ok_def plain_libs_def length_pad32)

lemma plain_sign_ok: "sign_ok plain_libs"
  by (simp add: sign_ok_def plain_libs_def)

lemma plain_kx_ok: "kx_ok plain_libs"
  by (simp add: kx_ok_def plain_libs_def)

lemma plain_aead_ok: "aead_ok plain_libs"
  by (simp add: aead_ok_def plain_libs_def unframe_frame unframe_other)

lemma plain_pwhash_ok: "pwhash_ok plain_libs"
  using map_byte_of_char_inj by (auto simp: pwhash_ok_def plain_libs_def)

lemma plain_msgpack_ok: "msgpack_ok plain_libs"
  unfolding msgpack_ok_def
  using plain_decode_array plain_decode_object
  by (simp add: plain_libs_def del: plain_decode.simps plain_encode.simps)

lemma plain_utf8_ok: "utf8_ok plain_libs"
  by (simp add: utf8_ok_def plain_libs_def map_comp_byte_of_char)

lemma text_decode_char:
  "text_decode (text_char c @ r) = map_option ((#) c) (text_decode r)"
proof (cases "byte_of_char c < 128")
  case True
  then show ?thesis
    by (cases r) (simp_all add: byte_of_char_inverse)
next
  case False
  then have "128 \<le> byte_of_char c"
    by simp
  with False show ?thesis
    by (simp add: byte_of_char_inverse)
qed

lemma text_decode_encode: "text_decode (text_encode s) = Some s"
proof (induction s)
  case Nil
  show ?case by (simp add: text_encode_def)
next
  case (Cons c s)
  have "text_encode (c # s) = text_char c @ text_encode s"
    by (simp add: text_encode_def)
  then show ?case
    using Cons.IH by (simp only: text_decode_char) simp
qed

lemma text_base64_ok: "base64_ok text_libs"
  using plain_base64_ok by (simp add: base64_ok_def text_libs_def)

lemma text_pubkey_sizes_ok: "pubkey_sizes_ok text_libs"
  using plain_pubkey_sizes_ok by (simp add: pubkey_sizes_ok_def text_libs_def)

lemma text_kx_ok: "kx_ok text_libs"
  by (simp add: kx_ok_def text_libs_def plain_libs_def)

lemma text_aead_ok: "aead_ok text_libs"
  using plain_aead_ok by (simp add: aead_ok_def text_libs_def)

lemma text_msgpack_ok: "msgpack_ok text_libs"
  using plain_msgpack_ok by (simp add: msgpack_ok_def text_libs_def)

lemma text_utf8_ok: "utf8_ok text_libs"
  by (simp add: utf8_ok_def text_libs_def text_decode_encode)

section \<open>Properties of the session and the call hooks\<close>

lemma newFromSeed_plain:
  "newFromSeed_keypair plain_libs seed =
     \<lparr>pubkeys = map char_of_byte (pad32 seed @ pad32 seed),
      signPub = pad32 seed, encPub = pad32 seed,
      signPriv = Some (pad32 seed), encPriv = Some (pad32 seed)\<rparr>"
  by (simp add: newFromSeed_keypair_def plain_libs_def encodeId_def)

text \<open>
  Claim C10. With no keypair bound, \<open>getCurrentAgentId\<close> gives \<open>undefined\<close> and does not
  fail. With a keypair bound it gives the encoding of the signing public key: the
  result is the same for any two keypairs with the same signing public key, whatever
  their encryption keys and identity strings are.
\<close>

theorem C10_getCurrentAgentId:
  "(keypair st = None \<longrightarrow> getCurrentAgentId L st = None)
   \<and> (\<forall>kp. keypair st = Some kp \<longrightarrow> getCurrentAgentId L st = Some (hcs0_encode L (signPub kp)))
   \<and> (\<forall>kp kp'. signPub kp = signPub kp' \<longrightarrow>
         getCurrentAgentId L (st\<lparr>keypair := Some kp\<rparr>)
           = getCurrentAgentId L (st\<lparr>keypair := Some kp'\<rparr>))"
  by (simp add: getCurrentAgentId_def)

theorem C10_getCurrentAgentId_witness:
  "getCurrentAgentId plain_libs connected_session = None
   \<and> getCurrentAgentId plain_libs
         (connected_session\<lparr>keypair := Some (newFromSeed_keypair plain_libs [1])\<rparr>)
       = Some (hcs0_encode plain_libs (signPub (newFromSeed_keypair plain_libs [1])))
   \<and> getCurrentAgentId plain_libs
         (connected_session\<lparr>keypair := Some (newFromSeed_keypair plain_libs [1])\<rparr>)
       = getCurrentAgentId plain_libs
           (connected_session\<lparr>keypair := Some ((newFromSeed_keypair plain_libs [1])
                                          \<lparr>pubkeys := ''other'', encPub := [7]\<rparr>)\<rparr>)"
proof -
  have unbound: "keypair connected_session = None"
    by (simp add: connected_session_def)
  have bound: "keypair (connected_session\<lparr>keypair := Some (newFromSeed_keypair plain_libs [1])\<rparr>)
                 = Some (newFromSeed_keypair plain_libs [1])"
    by simp
  have same: "signPub (newFromSeed_keypair plain_libs [1])
                = signPub ((newFromSeed_keypair plain_libs [1])\<lparr>pubkeys := ''other'', encPub := [7]\<rparr>)"
    by simp
  from C10_getCurrentAgentId [of connected_session plain_libs] unbound
  have "getCurrentAgentId plain_libs connected_session = None"
    by blast
  moreover
  from C10_getCurrentAgentId
         [of "connected_session\<lparr>keypair := Some (newFromSeed_keypair plain_libs [1])\<rparr>" plain_libs] bound
  have "getCurrentAgentId plain_libs
          (connected_session\<lparr>keypair := Some (newFromSeed_keypair plain_libs [1])\<rparr>)
        = Some (hcs0_encode plain_libs (signPub (newFromSeed_keypair plain_libs [1])))"
    by blast
  moreover
  from C10_getCurrentAgentId [of connected_session plain_libs] same
  have "getCurrentAgentId plain_libs
          (connected_session\<lparr>keypair := Some (newFromSeed_keypair plain_libs [1])\<rparr>)
        = getCurrentAgentId plain_libs
            (connected_session\<lparr>keypair := Some ((newFromSeed_keypair plain_libs [1])
                                           \<lparr>pubkeys := ''other'', encPub := [7]\<rparr>)\<rparr>)"
    by blast
  ultimately show ?thesis by blast
qed

lemma login_required_iff:
  "login_required L response
     = (case JSON_parse L response of None \<Rightarrow> False | Some j \<Rightarrow> encodes_Err_401 j)"
proof (cases "JSON_parse L response")
  case None
  then show ?thesis by (simp add: login_required_def)
next
  case (Some j)
  show ?thesis
  proof (cases j)
    case (JObj kvs)
    show ?thesis
    proof (cases "map_of kvs ''Err''")
      case None
      with Some JObj show ?thesis
        by (simp add: login_required_def encodes_Err_401_def)
    next
      case (Some err)
      with \<open>JSON_parse L response = Some j\<close> JObj show ?thesis
        by (cases err) (simp_all add: login_required_def encodes_Err_401_def)
    qed
  qed (simp_all add: Some login_required_def encodes_Err_401_def)
qed

text \<open>
  Claim C6. \<open>postCall\<close> returns the response it was given. When the response encodes
  \<open>{Err: {code: 401}}\<close> the login prompt is started once more than before, and in every
  other case, also that of a response that is no JSON text, nothing else changes.
\<close>

theorem C6_postCall:
  "postCall L st response
     = (response,
        if (case JSON_parse L response of None \<Rightarrow> False | Some j \<Rightarrow> encodes_Err_401 j)
        then st\<lparr>loginPrompts := loginPrompts st + 1\<rparr>
        else st)"
  by (simp add: postCall_def login_required_iff)

theorem C6_postCall_witness:
  "postCall plain_libs connected_session unauthorized_response
     = (unauthorized_response, connected_session\<lparr>loginPrompts := 1\<rparr>)
   \<and> postCall plain_libs connected_session ''null'' = (''null'', connected_session)
   \<and> postCall plain_libs connected_session ''no json'' = (''no json'', connected_session)"
  using C6_postCall [of plain_libs connected_session unauthorized_response]
    C6_postCall [of plain_libs connected_session "''null''"]
    C6_postCall [of plain_libs connected_session "''no json''"]
  by (simp add: plain_libs_def encodes_Err_401_def unauthorized_response_def connected_session_def)

lemma split_slash_not_Nil: "split_slash s \<noteq> []"
  by (induction s) (auto split: list.splits)

text \<open>
  Claim C7. With no keypair bound, \<open>preCall\<close> fails with the error \<open>NoKeys\<close>, and the
  call function of the web client, which awaits \<open>preCall\<close> first, leaves the session and
  its channel as they were: nothing is sent. With a keypair that can sign, \<open>preCall\<close>
  signs the serialisation of \<open>{method, params}\<close> and yields the call string \<open>holo/call\<close>
  whatever the method is; the call function then sends exactly one call, to
  \<open>holo/call\<close>. A bound keypair without a private signing key makes \<open>sign\<close> fail with its
  own error, and again nothing is sent.
\<close>

theorem C7_preCall:
  "(keypair st = None \<longrightarrow>
      preCall L st callString params = Rejected NoKeys
      \<and> client_call L host st callString params = (Rejected NoKeys, st))
   \<and> (\<forall>kp sk. keypair st = Some kp \<and> signPriv kp = Some sk \<longrightarrow>
         (\<exists>ps. preCall L st callString params = Resolved (''holo/call'', ps)
             \<and> signature ps
                 = toBase64 L (crypto_sign_detached L
                     (JSON_stringify L (JObj [(''method'', JStr callString), (''params'', params)]))
                     sk)
             \<and> args ps = params
             \<and> agentId ps = getCurrentAgentId L st
             \<and> happId ps = module_happId st
             \<and> (\<forall>ws. websocket st = Some ws \<longrightarrow>
                   channel_calls (snd (client_call L host st callString params))
                     = calls ws @ [(''holo/call'', CallParams ps)])))
   \<and> (\<forall>kp. keypair st = Some kp \<and> signPriv kp = None \<longrightarrow>
         preCall L st callString params = Rejected NoPrivateKey
         \<and> client_call L host st callString params = (Rejected NoPrivateKey, st))"
proof (intro conjI allI impI)
  assume "keypair st = None"
  then show "preCall L st callString params = Rejected NoKeys"
    by (simp add: preCall_def)
  then show "client_call L host st callString params = (Rejected NoKeys, st)"
    by (simp add: client_call_def)
next
  fix kp sk
  assume bound: "keypair st = Some kp \<and> signPriv kp = Some sk"
  let ?sg = "crypto_sign_detached L
               (JSON_stringify L (JObj [(''method'', JStr callString), (''params'', params)])) sk"
  let ?ps = "\<lparr>agentId = getCurrentAgentId L st, happId = module_happId st,
              instanceId = hd (split_slash callString),
              zome = nth_opt (split_slash callString) 1,
              function_name = nth_opt (split_slash callString) 2,
              args = params, signature = toBase64 L ?sg\<rparr>"
  have pre: "preCall L st callString params = Resolved (''holo/call'', ?ps)"
    using bound by (simp add: preCall_def sign_def Let_def)
  have sent: "channel_calls (snd (client_call L host st callString params))
                = calls ws @ [(''holo/call'', CallParams ?ps)]"
    if "websocket st = Some ws" for ws
    using that pre
    by (cases "host ''holo/call'' (CallParams ?ps)")
       (simp_all add: client_call_def ws_call_def channel_calls_def postCall_def Let_def)
  show "\<exists>ps. preCall L st callString params = Resolved (''holo/call'', ps)
          \<and> signature ps = toBase64 L ?sg
          \<and> args ps = params
          \<and> agentId ps = getCurrentAgentId L st
          \<and> happId ps = module_happId st
          \<and> (\<forall>ws. websocket st = Some ws \<longrightarrow>
                channel_calls (snd (client_call L host st callString params))
                  = calls ws @ [(''holo/call'', CallParams ps)])"
    using pre sent by (intro exI [of _ ?ps]) simp
next
  fix kp
  assume nopriv: "keypair st = Some kp \<and> signPriv kp = None"
  then show "preCall L st callString params = Rejected NoPrivateKey"
    by (simp add: preCall_def sign_def Let_def)
  then show "client_call L host st callString params = (Rejected NoPrivateKey, st)"
    by (simp add: client_call_def)
qed

theorem C7_preCall_witness:
  "preCall plain_libs connected_session ''dna/zome/fn'' JNull = Rejected NoKeys
   \<and> client_call plain_libs answering_host connected_session ''dna/zome/fn'' JNull
       = (Rejected NoKeys, connected_session)
   \<and> (\<exists>ps. preCall plain_libs
                (connected_session\<lparr>keypair := Some (newFromSeed_keypair plain_libs [1])\<rparr>)
                ''dna/zome/fn'' JNull
              = Resolved (''holo/call'', ps)
           \<and> channel_calls (snd (client_call plain_libs answering_host
                (connected_session\<lparr>keypair := Some (newFromSeed_keypair plain_libs [1])\<rparr>)
                ''dna/zome/fn'' JNull))
              = [(''holo/call'', CallParams ps)])"
proof -
  let ?bound = "connected_session\<lparr>keypair := Some (newFromSeed_keypair plain_libs [1])\<rparr>"
  have unbound: "keypair connected_session = None"
    by (simp add: connected_session_def)
  have bound: "keypair ?bound = Some (newFromSeed_keypair plain_libs [1])
               \<and> signPriv (newFromSeed_keypair plain_libs [1]) = Some (pad32 [1])"
    by (simp add: newFromSeed_plain)
  have ws: "websocket ?bound = Some fresh_channel" "calls fresh_channel = []"
    by (simp_all add: connected_session_def fresh_channel_def)
  from C7_preCall [of connected_session plain_libs "''dna/zome/fn''" JNull answering_host] unbound
  have first: "preCall plain_libs connected_session ''dna/zome/fn'' JNull = Rejected NoKeys
         \<and> client_call plain_libs answering_host connected_session ''dna/zome/fn'' JNull
             = (Rejected NoKeys, connected_session)"
    by blast
  from C7_preCall [of ?bound plain_libs "''dna/zome/fn''" JNull answering_host] bound
  obtain ps where
    "preCall plain_libs ?bound ''dna/zome/fn'' JNull = Resolved (''holo/call'', ps)"
    "\<forall>ws. websocket ?bound = Some ws \<longrightarrow>
       channel_calls (snd (client_call plain_libs answering_host ?bound ''dna/zome/fn'' JNull))
         = calls ws @ [(''holo/call'', CallParams ps)]"
    by blast
  with ws have "preCall plain_libs ?bound ''dna/zome/fn'' JNull = Resolved (''holo/call'', ps)
      \<and> channel_calls (snd (client_call plain_libs answering_host ?bound ''dna/zome/fn'' JNull))
          = [(''holo/call'', CallParams ps)]"
    by simp
  with first show ?thesis by blast
qed

section \<open>Properties of key regeneration\<close>

text \<open>
  Claim C5, as the program has it. When the lookup of the registered salt finds none
  (the callback resolves to a value that counts as absent, or fails),
  \<open>regenerateReadwriteKeypair\<close> produces no keypair: its promise is fulfilled with
  \<open>undefined\<close>. It is not rejected.
\<close>

theorem C5_regenerate_without_salt:
  assumes "salt_missing (getRegisteredSaltCallback email)"
  shows "regenerateReadwriteKeypair L email password getRegisteredSaltCallback rnd = Resolved None"
  using assms
  by (cases "getRegisteredSaltCallback email")
     (simp_all add: regenerateReadwriteKeypair_def)

theorem C5_regenerate_without_salt_witness:
  "regenerateReadwriteKeypair plain_libs ''a@b.c'' ''pw'' (\<lambda>email. Resolved SaltAbsent) []
     = Resolved None"
  using C5_regenerate_without_salt
          [of "\<lambda>email. Resolved SaltAbsent" "''a@b.c''" plain_libs "''pw''" "[]"]
  by simp

text \<open>
  The claim as the specification states it asks for a rejected operation. For a salt
  service that answers with an error, the promise is fulfilled instead.
\<close>

theorem C5_regenerate_counterexample:
  "\<not> is_rejected (regenerateReadwriteKeypair plain_libs ''a@b.c'' ''pw''
                     (\<lambda>email. Rejected (Error ''no salt registered'')) [])"
  by (simp add: regenerateReadwriteKeypair_def)

section \<open>Properties of the persistence bundle\<close>

text \<open>
  Claim C9, as the program has it. For every keypair, passphrase and hint, \<open>getBundle\<close>
  resolves to an object with the type tag \<open>hcKeypair\<close>, the hint, and as \<open>data\<close> one
  msgpack buffer: the encoding of the object \<open>{salt, nonce, cipher}\<close> whose three
  members are byte arrays (the salt and nonce drawn, and the encryption of the msgpack
  array of the four key fields under the password hash). No member is base64 text.
\<close>

theorem C9_getBundle_shape:
  "getBundle L kp passphrase hint rnd_salt rnd_nonce
     = Resolved
         \<lparr>bundle_type = ''hcKeypair'',
          bundle_hint = hint,
          bundle_data = msgpack_encode L
            (MMap [(''salt'', MBin rnd_salt),
                   (''nonce'', MBin rnd_nonce),
                   (''cipher'', MBin
                      (crypto_aead_xchacha20poly1305_ietf_encrypt L
                         (msgpack_encode L
                            (MArray [MBin (signPub kp), MBin (encPub kp),
                                     opt_bin (signPriv kp), opt_bin (encPriv kp)]))
                         None rnd_nonce (crypto_pwhash L 32 passphrase rnd_salt)))])\<rparr>"
  by (simp add: getBundle_def pwEnc_def pwHash_def Let_def)

text \<open>
  The type tag is not \<open>keypair-bundle\<close>: the bundle of a keypair derived from the seed
  \<open>[1]\<close> does not carry it.
\<close>

theorem C9_getBundle_counterexample:
  "\<not> has_type_tag ''keypair-bundle''
       (getBundle plain_libs (newFromSeed_keypair plain_libs [1]) ''pw'' ''my hint'' [5] [6])
   \<and> has_type_tag ''hcKeypair''
       (getBundle plain_libs (newFromSeed_keypair plain_libs [1]) ''pw'' ''my hint'' [5] [6])"
  by (simp add: getBundle_def pwEnc_def pwHash_def Let_def)

section \<open>Properties of binding a keypair\<close>

lemma sendClientSignature_resolved:
  assumes "websocket st = Some ws"
    and "host ''holo/identify'' (IdentifyParams (getCurrentAgentId L (st\<lparr>keypair := kp\<rparr>)))
           = Resolved r"
  shows "sendClientSignature L host st kp
           = (Resolved (),
              st\<lparr>keypair := kp,
                 websocket := Some
                   (ws\<lparr>calls := calls ws @
                          [(''holo/identify'',
                            IdentifyParams (getCurrentAgentId L (st\<lparr>keypair := kp\<rparr>)))],
                       subscriptions := subscriptions ws @
                          [sign_event (getCurrentAgentId L (st\<lparr>keypair := kp\<rparr>))],
                       listeners := listeners ws @
                          [sign_event (getCurrentAgentId L (st\<lparr>keypair := kp\<rparr>))]\<rparr>)\<rparr>)"
  using assms by (simp add: sendClientSignature_def ws_call_def Let_def)

lemma getCurrentAgentId_bound:
  "getCurrentAgentId L (st\<lparr>keypair := Some kp\<rparr>) = Some (hcs0_encode L (signPub kp))"
  by (simp add: getCurrentAgentId_def)

text \<open>
  Claim C4, as the program has it. Binding a keypair to a session with an open channel,
  when the host answers \<open>holo/identify\<close>, subscribes to the event name of the new agent
  and attaches a listener to it, after all the subscriptions and listeners the channel
  already had. None of those is removed: the program has no operation that
  unsubscribes or detaches.
\<close>

theorem C4_bind_keeps_subscriptions:
  assumes "websocket st = Some ws"
    and "host ''holo/identify'' (IdentifyParams (Some (hcs0_encode L (signPub kp)))) = Resolved r"
  shows "fst (sendClientSignature L host st (Some kp)) = Resolved ()
       \<and> keypair (snd (sendClientSignature L host st (Some kp))) = Some kp
       \<and> channel_subscriptions (snd (sendClientSignature L host st (Some kp)))
           = subscriptions ws @ [sign_event (Some (hcs0_encode L (signPub kp)))]
       \<and> channel_listeners (snd (sendClientSignature L host st (Some kp)))
           = listeners ws @ [sign_event (Some (hcs0_encode L (signPub kp)))]"
  using sendClientSignature_resolved [of st ws host L "Some kp" r] assms
  by (simp add: getCurrentAgentId_bound channel_subscriptions_def channel_listeners_def)

theorem C4_bind_keeps_subscriptions_witness:
  "fst (sendClientSignature plain_libs answering_host connected_session
          (Some (newFromSeed_keypair plain_libs [1]))) = Resolved ()
   \<and> channel_subscriptions (snd (sendClientSignature plain_libs answering_host connected_session
          (Some (newFromSeed_keypair plain_libs [1]))))
       = [sign_event (Some (hcs0_encode plain_libs (signPub (newFromSeed_keypair plain_libs [1]))))]
   \<and> channel_listeners (snd (sendClientSignature plain_libs answering_host connected_session
          (Some (newFromSeed_keypair plain_libs [1]))))
       = [sign_event (Some (hcs0_encode plain_libs (signPub (newFromSeed_keypair plain_libs [1]))))]"
proof -
  have ws: "websocket connected_session = Some fresh_channel"
    by (simp add: connected_session_def)
  have host: "answering_host ''holo/identify''
                (IdentifyParams (Some (hcs0_encode plain_libs
                   (signPub (newFromSeed_keypair plain_libs [1]))))) = Resolved ''{}''"
    by (simp add: answering_host_def)
  from C4_bind_keeps_subscriptions
         [of connected_session fresh_channel answering_host plain_libs
             "newFromSeed_keypair plain_libs [1]" "''{}''"] ws host
  show ?thesis
    by (simp add: fresh_channel_def)
qed

text \<open>
  The claim as the specification states it has the previous event name unsubscribed
  before the new one is subscribed. After the keypair of seed \<open>[1]\<close> and then the
  keypair of seed \<open>[2]\<close> are bound on a fresh channel, the event name of the first is
  still subscribed to and still has its listener.
\<close>

theorem C4_rebind_counterexample:
  "sign_event (Some (hcs0_encode plain_libs (signPub (newFromSeed_keypair plain_libs [1]))))
     \<in> set (channel_subscriptions
         (snd (sendClientSignature plain_libs answering_host
            (snd (sendClientSignature plain_libs answering_host connected_session
               (Some (newFromSeed_keypair plain_libs [1]))))
            (Some (newFromSeed_keypair plain_libs [2])))))
   \<and> sign_event (Some (hcs0_encode plain_libs (signPub (newFromSeed_keypair plain_libs [1]))))
     \<in> set (channel_listeners
         (snd (sendClientSignature plain_libs answering_host
            (snd (sendClientSignature plain_libs answering_host connected_session
               (Some (newFromSeed_keypair plain_libs [1]))))
            (Some (newFromSeed_keypair plain_libs [2])))))"
  by (simp add: sendClientSignature_def ws_call_def Let_def answering_host_def connected_session_def
      fresh_channel_def channel_subscriptions_def channel_listeners_def getCurrentAgentId_def)

lemma decodeId_encodeId:
  assumes "base64_ok L" and "length sp = 32" and "length ep = 32"
  shows "decodeId L (encodeId L sp ep) = Resolved (sp, ep)"
  using assms by (simp add: decodeId_def encodeId_def base64_ok_def)

lemma decodeId_newFromSeed:
  assumes "base64_ok L" and "pubkey_sizes_ok L"
  shows "decodeId L (pubkeys (newFromSeed_keypair L seed))
           = Resolved (signPub (newFromSeed_keypair L seed), encPub (newFromSeed_keypair L seed))"
  using assms decodeId_encodeId [of L "fst (crypto_sign_seed_keypair L seed)"
      "fst (crypto_kx_seed_keypair L seed)"]
  by (simp add: newFromSeed_keypair_def pubkey_sizes_ok_def Let_def)

lemma verify_own_signature:
  assumes "base64_ok L" and "pubkey_sizes_ok L" and "sign_ok L"
  shows "Keypair_verify L (newFromSeed_keypair L seed)
           (crypto_sign_detached L msg (snd (crypto_sign_seed_keypair L seed))) msg
         = Resolved True"
proof -
  have "crypto_sign_verify_detached L
          (crypto_sign_detached L msg (snd (crypto_sign_seed_keypair L seed))) msg
          (signPub (newFromSeed_keypair L seed))"
    using assms(3) by (simp add: sign_ok_def newFromSeed_keypair_def Let_def)
  then show ?thesis
    using decodeId_newFromSeed [OF assms(1) assms(2), of seed]
    by (simp add: Keypair_verify_def verify_def)
qed

lemma filter_eq_absent: "x \<notin> set xs \<Longrightarrow> filter (\<lambda>e. e = x) xs = []"
  by (induction xs) auto

lemma emit_event_single_listener:
  assumes "websocket st = Some ws"
    and "event \<in> set (subscriptions ws)"
    and "listeners ws = old @ [event]"
    and "event \<notin> set old"
  shows "emit_event L host st event entry ident = sign_listener L host entry ident st"
  using assms by (simp add: emit_event_def filter_eq_absent)

lemma sign_listener_calls:
  assumes "keypair st = Some kp" and "signPriv kp = Some sk" and "websocket st = Some ws"
  shows "channel_calls (sign_listener L host entry ident st)
           = calls ws @ [(''holo/clientSignature'',
                          ClientSignatureParams (toBase64 L (crypto_sign_detached L entry sk)) ident)]"
  using assms by (simp add: sign_listener_def sign_def ws_call_def channel_calls_def)

text \<open>
  Claim C1, as the program has it. Let a keypair derived from a seed be bound to a
  session with an open channel on which no listener is attached yet to the event name
  \<open>agent/<agentId>/sign\<close> of that keypair, where \<open>agentId\<close> is the encoding of its signing
  public key, and let the host answer \<open>holo/identify\<close>. When the host then pushes
  \<open>{entry, id}\<close> on that event name, the channel receives exactly one further call: a
  \<open>holo/clientSignature\<close> whose \<open>requestId\<close> is \<open>id\<close> and whose \<open>signature\<close> is the
  base64 text of a signature that verifies against \<open>entry\<close> under the identity of the
  bound keypair.
\<close>

theorem C1_sign_event_answered_once:
  assumes "base64_ok L" and "pubkey_sizes_ok L" and "sign_ok L"
    and "websocket st = Some ws"
    and "host ''holo/identify''
           (IdentifyParams (Some (hcs0_encode L (signPub (newFromSeed_keypair L seed)))))
         = Resolved r"
    and "sign_event (Some (hcs0_encode L (signPub (newFromSeed_keypair L seed))))
           \<notin> set (listeners ws)"
  shows "\<exists>sg. channel_calls
                (emit_event L host
                   (snd (sendClientSignature L host st (Some (newFromSeed_keypair L seed))))
                   (sign_event (Some (hcs0_encode L (signPub (newFromSeed_keypair L seed)))))
                   entry ident)
              = channel_calls
                  (snd (sendClientSignature L host st (Some (newFromSeed_keypair L seed))))
                @ [(''holo/clientSignature'', ClientSignatureParams (toBase64 L sg) ident)]
           \<and> fromBase64 L (toBase64 L sg) = Some sg
           \<and> Keypair_verify L (newFromSeed_keypair L seed) sg entry = Resolved True"
proof -
  let ?kp = "newFromSeed_keypair L seed"
  let ?ev = "sign_event (Some (hcs0_encode L (signPub ?kp)))"
  let ?sk = "snd (crypto_sign_seed_keypair L seed)"
  let ?sg = "crypto_sign_detached L entry ?sk"
  let ?ws1 = "ws\<lparr>calls := calls ws @
                  [(''holo/identify'', IdentifyParams (Some (hcs0_encode L (signPub ?kp))))],
                subscriptions := subscriptions ws @ [?ev],
                listeners := listeners ws @ [?ev]\<rparr>"
  let ?st1 = "snd (sendClientSignature L host st (Some ?kp))"
  have st1: "?st1 = st\<lparr>keypair := Some ?kp, websocket := Some ?ws1\<rparr>"
    using sendClientSignature_resolved [of st ws host L "Some ?kp" r] assms(4) assms(5)
    by (simp add: getCurrentAgentId_bound)
  have ws1: "websocket ?st1 = Some ?ws1" and kp1: "keypair ?st1 = Some ?kp"
    by (simp_all add: st1)
  have priv: "signPriv ?kp = Some ?sk"
    by (simp add: newFromSeed_keypair_def Let_def)
  have "emit_event L host ?st1 ?ev entry ident = sign_listener L host entry ident ?st1"
    by (rule emit_event_single_listener [OF ws1, of _ "listeners ws"])
       (simp_all add: assms(6))
  then have "channel_calls (emit_event L host ?st1 ?ev entry ident)
               = calls ?ws1 @ [(''holo/clientSignature'',
                                ClientSignatureParams (toBase64 L ?sg) ident)]"
    using sign_listener_calls [OF kp1 priv ws1] by simp
  moreover have "channel_calls ?st1 = calls ?ws1"
    using ws1 by (simp add: channel_calls_def)
  moreover have "fromBase64 L (toBase64 L ?sg) = Some ?sg"
    using assms(1) by (simp add: fromBase64_def toBase64_def base64_ok_def)
  moreover have "Keypair_verify L ?kp ?sg entry = Resolved True"
    by (rule verify_own_signature [OF assms(1) assms(2) assms(3)])
  ultimately show ?thesis
    by (intro exI [of _ ?sg]) simp
qed

theorem C1_sign_event_answered_once_witness:
  "\<exists>sg. channel_calls
          (emit_event plain_libs answering_host
             (snd (sendClientSignature plain_libs answering_host connected_session
                     (Some (newFromSeed_keypair plain_libs [1]))))
             (sign_event (Some (hcs0_encode plain_libs
                                  (signPub (newFromSeed_keypair plain_libs [1])))))
             ''abc'' ''7'')
        = channel_calls
            (snd (sendClientSignature plain_libs answering_host connected_session
                    (Some (newFromSeed_keypair plain_libs [1]))))
          @ [(''holo/clientSignature'', ClientSignatureParams (toBase64 plain_libs sg) ''7'')]
     \<and> fromBase64 plain_libs (toBase64 plain_libs sg) = Some sg
     \<and> Keypair_verify plain_libs (newFromSeed_keypair plain_libs [1]) sg ''abc'' = Resolved True"
proof -
  have ws: "websocket connected_session = Some fresh_channel"
    by (simp add: connected_session_def)
  have host: "answering_host ''holo/identify''
                (IdentifyParams (Some (hcs0_encode plain_libs
                   (signPub (newFromSeed_keypair plain_libs [1]))))) = Resolved ''{}''"
    by (simp add: answering_host_def)
  have fresh: "sign_event (Some (hcs0_encode plain_libs
                 (signPub (newFromSeed_keypair plain_libs [1]))))
               \<notin> set (listeners fresh_channel)"
    by (simp add: fresh_channel_def)
  show ?thesis
    by (rule C1_sign_event_answered_once
          [where L = plain_libs and host = answering_host and st = connected_session
             and ws = fresh_channel and seed = "[1]" and r = "''{}''",
           OF plain_base64_ok plain_pubkey_sizes_ok plain_sign_ok ws host fresh])
qed

text \<open>
  The claim as the specification states it holds for every keypair bound to an open
  channel. When the keypair of seed \<open>[1]\<close> is bound twice on a fresh channel (the user
  logs in again with the same credentials), two listeners are attached to its event
  name, and one sign-event \<open>{entry: "abc", id: "7"}\<close> is answered by two
  \<open>holo/clientSignature\<close> calls.
\<close>

theorem C1_bound_twice_counterexample:
  "length (clientSignature_calls (channel_calls
     (emit_event plain_libs answering_host
        (snd (sendClientSignature plain_libs answering_host
           (snd (sendClientSignature plain_libs answering_host connected_session
              (Some (newFromSeed_keypair plain_libs [1]))))
           (Some (newFromSeed_keypair plain_libs [1]))))
        (sign_event (Some (hcs0_encode plain_libs
                             (signPub (newFromSeed_keypair plain_libs [1])))))
        ''abc'' ''7''))) = 2"
  by (simp add: sendClientSignature_def ws_call_def Let_def answering_host_def connected_session_def
      fresh_channel_def channel_calls_def getCurrentAgentId_def emit_event_def
      sign_listener_def sign_def newFromSeed_plain clientSignature_calls_def)

section \<open>Properties of bundle export and import\<close>

lemma pwDec_pwEnc:
  assumes "msgpack_ok L"
  shows "pwDec L
           (msgpack_encode L
              (MMap [(''salt'', MBin rs), (''nonce'', MBin rn),
                     (''cipher'', MBin (crypto_aead_xchacha20poly1305_ietf_encrypt L d None rn
                                         (crypto_pwhash L 32 p rs)))]))
           p' None rnd
         = (case crypto_aead_xchacha20poly1305_ietf_decrypt L
                  (crypto_aead_xchacha20poly1305_ietf_encrypt L d None rn (crypto_pwhash L 32 p rs))
                  None rn (crypto_pwhash L 32 p' rs) of
              None \<Rightarrow> Pending
            | Some plain \<Rightarrow> Resolved plain)"
proof -
  have "msgpack_decode L
          (msgpack_encode L
             (MMap [(''salt'', MBin rs), (''nonce'', MBin rn),
                    (''cipher'', MBin (crypto_aead_xchacha20poly1305_ietf_encrypt L d None rn
                                        (crypto_pwhash L 32 p rs)))]))
        = Some (MMap [(''salt'', MBin rs), (''nonce'', MBin rn),
                      (''cipher'', MBin (crypto_aead_xchacha20poly1305_ietf_encrypt L d None rn
                                          (crypto_pwhash L 32 p rs)))])"
    using assms by (simp add: msgpack_ok_def)
  then show ?thesis
    by (simp add: pwDec_def pwHash_def Let_def)
qed

lemma decode_key_array:
  assumes "msgpack_ok L"
  shows "msgpack_decode L (msgpack_encode L (MArray [MBin sp, MBin ep, opt_bin a, opt_bin b]))
           = Some (MArray [MBin sp, MBin ep, opt_bin a, opt_bin b])"
proof -
  have "MArray [MBin sp, MBin ep, opt_bin a, opt_bin b]
          = MArray (map opt_bin [Some sp, Some ep, a, b])"
    by simp
  then show ?thesis
    using assms unfolding msgpack_ok_def by metis
qed

lemma priv_entry_opt_bin:
  "priv_entry [MBin sp, MBin ep, opt_bin a, opt_bin b] 2 = Some a"
  "priv_entry [MBin sp, MBin ep, opt_bin a, opt_bin b] 3 = Some b"
  by (cases a; cases b; simp)+

lemma fromBundle_getBundle:
  assumes "msgpack_ok L" and "aead_ok L"
    and "getBundle L kp p h rs rn = Resolved b"
  shows "fromBundle L b p rnd = Resolved (kp\<lparr>pubkeys := encodeId L (signPub kp) (encPub kp)\<rparr>)"
proof -
  let ?keys = "msgpack_encode L (MArray [MBin (signPub kp), MBin (encPub kp),
                                         opt_bin (signPriv kp), opt_bin (encPriv kp)])"
  have data: "bundle_data b
        = msgpack_encode L
            (MMap [(''salt'', MBin rs), (''nonce'', MBin rn),
                   (''cipher'', MBin (crypto_aead_xchacha20poly1305_ietf_encrypt L ?keys None rn
                                       (crypto_pwhash L 32 p rs)))])"
    using assms(3) by (auto simp: getBundle_def pwEnc_def pwHash_def Let_def)
  have "crypto_aead_xchacha20poly1305_ietf_decrypt L
          (crypto_aead_xchacha20poly1305_ietf_encrypt L ?keys None rn (crypto_pwhash L 32 p rs))
          None rn (crypto_pwhash L 32 p rs) = Some ?keys"
    using assms(2) by (simp add: aead_ok_def)
  then have dec: "pwDec L (bundle_data b) p None rnd = Resolved ?keys"
    using pwDec_pwEnc [OF assms(1), of rs rn ?keys p p rnd] data by simp
  show ?thesis
    by (simp add: fromBundle_def dec decode_key_array [OF assms(1)] priv_entry_opt_bin
             del: priv_entry.simps)
qed

lemma fromBundle_wrong_passphrase:
  assumes "msgpack_ok L" and "aead_ok L" and "pwhash_ok L"
    and "getBundle L kp p h rs rn = Resolved b"
    and "wrongP \<noteq> p"
  shows "fromBundle L b wrongP rnd = Pending"
proof -
  let ?keys = "msgpack_encode L (MArray [MBin (signPub kp), MBin (encPub kp),
                                         opt_bin (signPriv kp), opt_bin (encPriv kp)])"
  have data: "bundle_data b
        = msgpack_encode L
            (MMap [(''salt'', MBin rs), (''nonce'', MBin rn),
                   (''cipher'', MBin (crypto_aead_xchacha20poly1305_ietf_encrypt L ?keys None rn
                                       (crypto_pwhash L 32 p rs)))])"
    using assms(4) by (auto simp: getBundle_def pwEnc_def pwHash_def Let_def)
  have "crypto_pwhash L 32 p rs \<noteq> crypto_pwhash L 32 wrongP rs"
    using assms(3) assms(5) unfolding pwhash_ok_def by metis
  then have "crypto_aead_xchacha20poly1305_ietf_decrypt L
          (crypto_aead_xchacha20poly1305_ietf_encrypt L ?keys None rn (crypto_pwhash L 32 p rs))
          None rn (crypto_pwhash L 32 wrongP rs) = None"
    using assms(2) unfolding aead_ok_def by metis
  then have "pwDec L (bundle_data b) wrongP None rnd = Pending"
    using pwDec_pwEnc [OF assms(1), of rs rn ?keys p wrongP rnd] data by simp
  then show ?thesis
    by (simp add: fromBundle_def)
qed

text \<open>
  Claim C2, as the program behaves. \<open>getBundle\<close> always resolves to a bundle. Importing
  that bundle with the passphrase it was made with resolves to a keypair with the same
  public and private key fields and the identity string that encodes the two public
  keys, which is the keypair itself when its identity string is that encoding. Importing
  it with any other passphrase never returns a keypair, but the promise is not rejected
  either: the authentication failure is raised inside a \<open>then\<close> callback of \<open>pwDec\<close>, so
  the promise of \<open>fromBundle\<close> stays pending.
\<close>

theorem C2_bundle_round_trip:
  assumes "msgpack_ok L" and "aead_ok L" and "pwhash_ok L"
  shows "\<exists>b. getBundle L kp p h rs rn = Resolved b
           \<and> fromBundle L b p rnd
               = Resolved (kp\<lparr>pubkeys := encodeId L (signPub kp) (encPub kp)\<rparr>)
           \<and> (pubkeys kp = encodeId L (signPub kp) (encPub kp) \<longrightarrow>
                 fromBundle L b p rnd = Resolved kp)
           \<and> (\<forall>wrongP. wrongP \<noteq> p \<longrightarrow> fromBundle L b wrongP rnd = Pending)"
proof -
  obtain b where b: "getBundle L kp p h rs rn = Resolved b"
    by (simp add: getBundle_def pwEnc_def Let_def)
  have good: "fromBundle L b p rnd
                = Resolved (kp\<lparr>pubkeys := encodeId L (signPub kp) (encPub kp)\<rparr>)"
    by (rule fromBundle_getBundle [OF assms(1) assms(2) b])
  have same: "fromBundle L b p rnd = Resolved kp"
    if "pubkeys kp = encodeId L (signPub kp) (encPub kp)"
  proof -
    have "kp\<lparr>pubkeys := encodeId L (signPub kp) (encPub kp)\<rparr> = kp"
      using that by simp
    with good show ?thesis by simp
  qed
  have bad: "fromBundle L b wrongP rnd = Pending" if "wrongP \<noteq> p" for wrongP
    by (rule fromBundle_wrong_passphrase [OF assms b that])
  from b good same bad show ?thesis by blast
qed

theorem C2_bundle_round_trip_witness:
  "\<exists>b. getBundle plain_libs (newFromSeed_keypair plain_libs [1]) ''right'' ''my hint'' [5] [6]
         = Resolved b
     \<and> fromBundle plain_libs b ''right'' [] = Resolved (newFromSeed_keypair plain_libs [1])
     \<and> fromBundle plain_libs b ''wrong'' [] = Pending
     \<and> \<not> is_rejected (fromBundle plain_libs b ''wrong'' [])"
proof -
  have ident: "pubkeys (newFromSeed_keypair plain_libs [1])
                 = encodeId plain_libs (signPub (newFromSeed_keypair plain_libs [1]))
                     (encPub (newFromSeed_keypair plain_libs [1]))"
    by (simp add: newFromSeed_keypair_def Let_def)
  have differ: "''wrong'' \<noteq> ''right''"
    by simp
  from C2_bundle_round_trip [OF plain_msgpack_ok plain_aead_ok plain_pwhash_ok,
      of "newFromSeed_keypair plain_libs [1]" "''right''" "''my hint''" "[5]" "[6]" "[]"]
  obtain b where
    made: "getBundle plain_libs (newFromSeed_keypair plain_libs [1]) ''right'' ''my hint'' [5] [6]
       = Resolved b"
    and same: "pubkeys (newFromSeed_keypair plain_libs [1])
       = encodeId plain_libs (signPub (newFromSeed_keypair plain_libs [1]))
           (encPub (newFromSeed_keypair plain_libs [1]))
     \<longrightarrow> fromBundle plain_libs b ''right'' [] = Resolved (newFromSeed_keypair plain_libs [1])"
    and other: "\<forall>wrongP. wrongP \<noteq> ''right'' \<longrightarrow> fromBundle plain_libs b wrongP [] = Pending"
    by blast
  have right: "fromBundle plain_libs b ''right'' [] = Resolved (newFromSeed_keypair plain_libs [1])"
    using same ident by (rule mp)
  have "''wrong'' \<noteq> ''right'' \<longrightarrow> fromBundle plain_libs b ''wrong'' [] = Pending"
    using other by (rule spec)
  then have wrong: "fromBundle plain_libs b ''wrong'' [] = Pending"
    using differ by (rule mp)
  from made right wrong have
    "getBundle plain_libs (newFromSeed_keypair plain_libs [1]) ''right'' ''my hint'' [5] [6]
       = Resolved b
     \<and> fromBundle plain_libs b ''right'' [] = Resolved (newFromSeed_keypair plain_libs [1])
     \<and> fromBundle plain_libs b ''wrong'' [] = Pending"
    by (intro conjI)
  then show ?thesis
    by (intro exI [of _ b]) simp
qed

section \<open>Properties of multi-recipient encryption\<close>

lemma encrypt_slot_recipient:
  assumes "base64_ok L" and "pubkey_sizes_ok L" and "encPriv kp = Some sk"
  shows "encrypt_slot L kp adata symSecret nonce (pubkeys (newFromSeed_keypair L r))
           = Some [nonce,
                   crypto_aead_xchacha20poly1305_ietf_encrypt L symSecret adata nonce
                     (snd (crypto_kx_server_session_keys L (encPub kp) sk
                             (encPub (newFromSeed_keypair L r))))]"
  using decodeId_newFromSeed [OF assms(1) assms(2), of r] assms(3)
  by (simp add: encrypt_slot_def Let_def)

lemma encrypt_loop_recipients:
  assumes "base64_ok L" and "pubkey_sizes_ok L" and "encPriv kp = Some sk"
  shows "encrypt_loop L kp adata symSecret rnd
           (map (\<lambda>r. pubkeys (newFromSeed_keypair L r)) rs) out k flag
         = (out @ wrapped L (encPub kp) sk adata symSecret rnd k
                    (map (\<lambda>r. encPub (newFromSeed_keypair L r)) rs),
            k + length rs, flag \<or> rs \<noteq> [])"
proof (induction rs arbitrary: out k flag)
  case Nil
  show ?case by simp
next
  case (Cons r rs)
  show ?case
    by (simp add: encrypt_slot_recipient [OF assms] Cons.IH)
qed

lemma encrypt_recipients:
  assumes "base64_ok L" and "pubkey_sizes_ok L" and "encPriv kp = Some sk" and "rs \<noteq> []"
  shows "encrypt L kp (map (\<lambda>r. pubkeys (newFromSeed_keypair L r)) rs) d adata symSecret rnd
         = Resolved (msgpack_encode L (MArray (map MBin
             (wrapped L (encPub kp) sk adata symSecret rnd 0
                (map (\<lambda>r. encPub (newFromSeed_keypair L r)) rs)
              @ [rnd (length rs),
                 crypto_aead_xchacha20poly1305_ietf_encrypt L (Buffer_from L d) adata
                   (rnd (length rs)) symSecret]))))"
  using assms(4)
  by (simp add: encrypt_def encrypt_loop_recipients [OF assms(1) assms(2) assms(3)] Let_def)

lemma decrypt_loop_shift:
  "decrypt_loop L (a # b # cipher) adata rx (i + 2) s = decrypt_loop L cipher adata rx i s"
proof (induction "length cipher - i" arbitrary: i s rule: less_induct)
  case less
  show ?case
  proof (cases "i + 2 < length cipher")
    case True
    define s' where "s' = (case (cipher ! i, cipher ! (i + 1)) of
                             (Some n, Some c) \<Rightarrow>
                               (case crypto_aead_xchacha20poly1305_ietf_decrypt L c adata n rx of
                                  Some x \<Rightarrow> Some x
                                | None \<Rightarrow> s)
                           | _ \<Rightarrow> s)"
    have left: "decrypt_loop L (a # b # cipher) adata rx (i + 2) s
                  = decrypt_loop L (a # b # cipher) adata rx (i + 2 + 2) s'"
      using True by (subst decrypt_loop.simps) (simp add: s'_def)
    have right: "decrypt_loop L cipher adata rx i s = decrypt_loop L cipher adata rx (i + 2) s'"
      using True by (subst decrypt_loop.simps) (simp add: s'_def)
    have "length cipher - (i + 2) < length cipher - i"
      using True by simp
    then have "decrypt_loop L (a # b # cipher) adata rx (i + 2 + 2) s'
                 = decrypt_loop L cipher adata rx (i + 2) s'"
      by (rule less)
    with left right show ?thesis by simp
  next
    case False
    then show ?thesis
      by (subst decrypt_loop.simps, subst (2) decrypt_loop.simps) simp
  qed
qed

lemma decrypt_loop_payload_only:
  "decrypt_loop L [n, c] adata rx 0 s = s"
  by (subst decrypt_loop.simps) simp

lemma decrypt_loop_step:
  assumes "rest \<noteq> []"
  shows "decrypt_loop L (Some n # Some c # rest) adata rx 0 s
         = decrypt_loop L rest adata rx 0
             (case crypto_aead_xchacha20poly1305_ietf_decrypt L c adata n rx of
                Some x \<Rightarrow> Some x
              | None \<Rightarrow> s)"
proof -
  have "decrypt_loop L (Some n # Some c # rest) adata rx 0 s
        = decrypt_loop L (Some n # Some c # rest) adata rx (0 + 2)
            (case crypto_aead_xchacha20poly1305_ietf_decrypt L c adata n rx of
               Some x \<Rightarrow> Some x
             | None \<Rightarrow> s)"
    using assms by (subst decrypt_loop.simps) (simp add: Suc_lessI)
  then show ?thesis
    by (simp only: decrypt_loop_shift)
qed

lemma decrypt_loop_wrapped:
  assumes "aead_ok L"
  shows "decrypt_loop L
           (map Some (wrapped L pk sk adata symSecret rnd k rps @ [nP, cP])) adata rx 0 s
         = (if rx \<in> (\<lambda>rp. snd (crypto_kx_server_session_keys L pk sk rp)) ` set rps
            then Some symSecret
            else (case s of None \<Rightarrow> None | Some x \<Rightarrow> Some x))"
proof (induction rps arbitrary: k s)
  case Nil
  show ?case
    by (cases s) (simp_all add: decrypt_loop_payload_only)
next
  case (Cons rp rps)
  let ?tx = "snd (crypto_kx_server_session_keys L pk sk rp)"
  let ?c = "crypto_aead_xchacha20poly1305_ietf_encrypt L symSecret adata (rnd k) ?tx"
  let ?rest = "map Some (wrapped L pk sk adata symSecret rnd (Suc k) rps @ [nP, cP])"
  have step: "decrypt_loop L
                (map Some (wrapped L pk sk adata symSecret rnd k (rp # rps) @ [nP, cP]))
                adata rx 0 s
              = decrypt_loop L ?rest adata rx 0
                  (case crypto_aead_xchacha20poly1305_ietf_decrypt L ?c adata (rnd k) rx of
                     Some x \<Rightarrow> Some x
                   | None \<Rightarrow> s)"
    using decrypt_loop_step [of ?rest L "rnd k" ?c adata rx s] by simp
  show ?case
  proof (cases "rx = ?tx")
    case True
    then have "crypto_aead_xchacha20poly1305_ietf_decrypt L ?c adata (rnd k) rx = Some symSecret"
      using assms by (simp add: aead_ok_def)
    then show ?thesis
      using step Cons.IH [of "Suc k" "Some symSecret"] True by simp
  next
    case False
    then have "crypto_aead_xchacha20poly1305_ietf_decrypt L ?c adata (rnd k) rx = None"
      using assms unfolding aead_ok_def by metis
    then show ?thesis
      using step Cons.IH [of "Suc k" s] False by simp
  qed
qed

lemma decode_bins:
  assumes "msgpack_ok L"
  shows "msgpack_decode L (msgpack_encode L (MArray (map MBin xs))) = Some (MArray (map MBin xs))"
proof -
  have "map MBin xs = map opt_bin (map Some xs)"
    by simp
  then show ?thesis
    using assms unfolding msgpack_ok_def by metis
qed

lemma entries_bins: "entries (MArray (map MBin xs)) = Some (map Some xs)"
  by simp

lemma payload_entries:
  "map Some (ws @ [nP, cP]) ! (length (map Some (ws @ [nP, cP])) - 1) = Some cP"
  "map Some (ws @ [nP, cP]) ! (length (map Some (ws @ [nP, cP])) - 2) = Some nP"
  by (simp_all add: nth_append)

lemma nth_after_append:
  "(ws @ [a, b]) ! length ws = a"
  "(ws @ [a, b]) ! Suc (length ws) = b"
  by (simp_all add: nth_append)

lemma decrypt_encrypted:
  assumes "msgpack_ok L" and "base64_ok L" and "pubkey_sizes_ok L" and "aead_ok L"
    and "encPriv kp = Some sk"
  shows "decrypt L kp (pubkeys (newFromSeed_keypair L ss))
           (msgpack_encode L (MArray (map MBin
              (wrapped L pk' sk' adata symSecret rnd k rps
               @ [nP, crypto_aead_xchacha20poly1305_ietf_encrypt L plain adata nP symSecret]))))
           adata
         = (if fst (crypto_kx_client_session_keys L (encPub kp) sk
                      (encPub (newFromSeed_keypair L ss)))
               \<in> (\<lambda>rp. snd (crypto_kx_server_session_keys L pk' sk' rp)) ` set rps
            then (case to_string L plain of None \<Rightarrow> Pending | Some s \<Rightarrow> Resolved s)
            else Rejected NotARecipient)"
proof -
  let ?cP = "crypto_aead_xchacha20poly1305_ietf_encrypt L plain adata nP symSecret"
  let ?ws = "wrapped L pk' sk' adata symSecret rnd k rps"
  let ?rx = "fst (crypto_kx_client_session_keys L (encPub kp) sk
                    (encPub (newFromSeed_keypair L ss)))"
  have dec: "msgpack_decode L (msgpack_encode L (MArray (map MBin (?ws @ [nP, ?cP]))))
               = Some (MArray (map MBin (?ws @ [nP, ?cP])))"
    by (rule decode_bins [OF assms(1)])
  have ent: "entries (MArray (map MBin (?ws @ [nP, ?cP]))) = Some (map Some (?ws @ [nP, ?cP]))"
    by (rule entries_bins)
  have ident: "decodeId L (pubkeys (newFromSeed_keypair L ss))
                 = Resolved (signPub (newFromSeed_keypair L ss), encPub (newFromSeed_keypair L ss))"
    by (rule decodeId_newFromSeed [OF assms(2) assms(3)])
  have loop: "decrypt_loop L (map Some (?ws @ [nP, ?cP])) adata ?rx 0 None
                = (if ?rx \<in> (\<lambda>rp. snd (crypto_kx_server_session_keys L pk' sk' rp)) ` set rps
                   then Some symSecret else None)"
    using decrypt_loop_wrapped [OF assms(4), of pk' sk' adata symSecret rnd k rps nP ?cP ?rx None]
    by simp
  have payload: "crypto_aead_xchacha20poly1305_ietf_decrypt L ?cP adata nP symSecret = Some plain"
    using assms(4) by (simp add: aead_ok_def)
  show ?thesis
    by (simp add: decrypt_def dec ent ident loop assms(5) payload nth_after_append Let_def
             del: entries.simps map_append)
qed

text \<open>
  Claim C3, as the program behaves. Let the sender and the recipients be keypairs
  derived from seeds, and let there be at least one recipient. Then \<open>encrypt\<close> resolves,
  for every plaintext, to a ciphertext for which \<open>decrypt\<close> is rejected with the error
  \<open>NotARecipient\<close> for every derived keypair whose public encryption key is that of no
  recipient. A recipient's \<open>decrypt\<close>, with its own keypair and the sender's identity
  string, recovers the plaintext bytes and hands them to \<open>to_string\<close>: it resolves to the
  text those bytes encode, which for a plaintext string is the string itself. For
  plaintext bytes that are no UTF-8 text \<open>to_string\<close> raises inside a \<open>then\<close> callback and
  the recipient's promise is never settled: the plaintext does not come back. The
  libraries are assumed to round-trip (base64, msgpack, UTF-8), to agree on the session
  keys, and never to authenticate under another key.
\<close>

theorem C3_multi_recipient_decrypt:
  assumes "base64_ok L" and "pubkey_sizes_ok L" and "kx_ok L" and "aead_ok L"
    and "msgpack_ok L" and "utf8_ok L"
    and "rs \<noteq> []"
  shows "\<exists>c. encrypt L (newFromSeed_keypair L ss)
                (map (\<lambda>r. getId (newFromSeed_keypair L r)) rs) d adata symSecret rnd
              = Resolved c
           \<and> (\<forall>r \<in> set rs.
                 decrypt L (newFromSeed_keypair L r) (getId (newFromSeed_keypair L ss)) c adata
                   = (case to_string L (Buffer_from L d) of
                        None \<Rightarrow> Pending
                      | Some t \<Rightarrow> Resolved t))
           \<and> (\<forall>s. d = Str s \<longrightarrow>
                 (\<forall>r \<in> set rs.
                    decrypt L (newFromSeed_keypair L r) (getId (newFromSeed_keypair L ss)) c adata
                      = Resolved s))
           \<and> (\<forall>q. encPub (newFromSeed_keypair L q)
                     \<notin> (\<lambda>r. encPub (newFromSeed_keypair L r)) ` set rs \<longrightarrow>
                 decrypt L (newFromSeed_keypair L q) (getId (newFromSeed_keypair L ss)) c adata
                   = Rejected NotARecipient)"
proof -
  let ?S = "newFromSeed_keypair L ss"
  let ?pk = "fst (crypto_kx_seed_keypair L ss)"
  let ?sk = "snd (crypto_kx_seed_keypair L ss)"
  let ?rps = "map (\<lambda>r. encPub (newFromSeed_keypair L r)) rs"
  let ?nP = "rnd (length rs)"
  let ?cP = "crypto_aead_xchacha20poly1305_ietf_encrypt L (Buffer_from L d) adata ?nP symSecret"
  let ?c = "msgpack_encode L (MArray (map MBin
              (wrapped L ?pk ?sk adata symSecret rnd 0 ?rps @ [?nP, ?cP])))"
  let ?shown = "case to_string L (Buffer_from L d) of None \<Rightarrow> Pending | Some t \<Rightarrow> Resolved t"
  have keys: "encPub (newFromSeed_keypair L s) = fst (crypto_kx_seed_keypair L s)"
             "encPriv (newFromSeed_keypair L s) = Some (snd (crypto_kx_seed_keypair L s))" for s
    by (simp_all add: newFromSeed_keypair_def Let_def)
  have enc: "encrypt L ?S (map (\<lambda>r. getId (newFromSeed_keypair L r)) rs) d adata
               symSecret rnd = Resolved ?c"
    using encrypt_recipients [OF assms(1) assms(2) keys(2) assms(7), of ss d adata symSecret rnd]
    by (simp add: getId_def keys(1))
  have dec: "decrypt L (newFromSeed_keypair L q) (getId ?S) ?c adata
               = (if fst (crypto_kx_client_session_keys L (fst (crypto_kx_seed_keypair L q))
                            (snd (crypto_kx_seed_keypair L q)) ?pk)
                     \<in> (\<lambda>rp. snd (crypto_kx_server_session_keys L ?pk ?sk rp)) ` set ?rps
                  then ?shown
                  else Rejected NotARecipient)" for q
    using decrypt_encrypted [OF assms(5) assms(1) assms(2) assms(4) keys(2),
        of q ss ?pk ?sk adata symSecret rnd 0 ?rps ?nP "Buffer_from L d"]
    by (simp add: getId_def keys(1))
  have agree: "snd (crypto_kx_server_session_keys L ?pk ?sk (fst (crypto_kx_seed_keypair L r)))
                 = fst (crypto_kx_client_session_keys L (fst (crypto_kx_seed_keypair L r))
                          (snd (crypto_kx_seed_keypair L r)) ?pk)" for r
    using assms(3) by (simp add: kx_ok_def)
  have differ: "snd (crypto_kx_server_session_keys L ?pk ?sk (fst (crypto_kx_seed_keypair L r)))
                 \<noteq> fst (crypto_kx_client_session_keys L (fst (crypto_kx_seed_keypair L q))
                          (snd (crypto_kx_seed_keypair L q)) ?pk)"
    if "fst (crypto_kx_seed_keypair L r) \<noteq> fst (crypto_kx_seed_keypair L q)" for r q
    using assms(3) that unfolding kx_ok_def by blast
  have recipient: "decrypt L (newFromSeed_keypair L r) (getId ?S) ?c adata = ?shown"
    if "r \<in> set rs" for r
  proof -
    have "fst (crypto_kx_client_session_keys L (fst (crypto_kx_seed_keypair L r))
                 (snd (crypto_kx_seed_keypair L r)) ?pk)
            \<in> (\<lambda>rp. snd (crypto_kx_server_session_keys L ?pk ?sk rp)) ` set ?rps"
      using that agree [of r] by (force simp: keys(1))
    then show ?thesis
      by (simp only: dec if_True)
  qed
  have as_string: "decrypt L (newFromSeed_keypair L r) (getId ?S) ?c adata = Resolved s"
    if "d = Str s" and "r \<in> set rs" for s r
  proof -
    have "to_string L (Buffer_from L d) = Some s"
      using assms(6) that(1) by (simp add: utf8_ok_def)
    with recipient [OF that(2)] show ?thesis by simp
  qed
  have outsider: "decrypt L (newFromSeed_keypair L q) (getId ?S) ?c adata = Rejected NotARecipient"
    if "encPub (newFromSeed_keypair L q) \<notin> (\<lambda>r. encPub (newFromSeed_keypair L r)) ` set rs"
    for q
  proof -
    have "fst (crypto_kx_client_session_keys L (fst (crypto_kx_seed_keypair L q))
                 (snd (crypto_kx_seed_keypair L q)) ?pk)
            \<notin> (\<lambda>rp. snd (crypto_kx_server_session_keys L ?pk ?sk rp)) ` set ?rps"
    proof
      assume "fst (crypto_kx_client_session_keys L (fst (crypto_kx_seed_keypair L q))
                 (snd (crypto_kx_seed_keypair L q)) ?pk)
            \<in> (\<lambda>rp. snd (crypto_kx_server_session_keys L ?pk ?sk rp)) ` set ?rps"
      then obtain r where r: "r \<in> set rs"
        and eq: "fst (crypto_kx_client_session_keys L (fst (crypto_kx_seed_keypair L q))
                   (snd (crypto_kx_seed_keypair L q)) ?pk)
                 = snd (crypto_kx_server_session_keys L ?pk ?sk (fst (crypto_kx_seed_keypair L r)))"
        by (auto simp: keys(1))
      have "fst (crypto_kx_seed_keypair L r) \<noteq> fst (crypto_kx_seed_keypair L q)"
      proof
        assume "fst (crypto_kx_seed_keypair L r) = fst (crypto_kx_seed_keypair L q)"
        then have "encPub (newFromSeed_keypair L q) = encPub (newFromSeed_keypair L r)"
          by (simp add: keys(1))
        with r have "encPub (newFromSeed_keypair L q)
                       \<in> (\<lambda>r. encPub (newFromSeed_keypair L r)) ` set rs"
          by (rule_tac image_eqI)
        with that show False by simp
      qed
      from differ [OF this] eq show False by simp
    qed
    then show ?thesis
      by (simp only: dec if_False)
  qed
  from enc recipient as_string outsider show ?thesis
    by (intro exI [of _ ?c] conjI ballI allI impI) blast+
qed

text \<open>
  Two runs, with the sender of seed \<open>[1]\<close>, the recipients of seeds \<open>[2]\<close>, \<open>[3]\<close>, \<open>[4]\<close>
  and the outsider of seed \<open>[5]\<close>. The text \<open>hello\<close> comes back to each recipient. The
  one-byte plaintext \<open>0xff\<close>, which is no UTF-8 text, is encrypted, the outsider is
  rejected, and the recipient's \<open>decrypt\<close> never settles.
\<close>

theorem C3_multi_recipient_decrypt_witness:
  "(\<exists>c. encrypt text_libs (newFromSeed_keypair text_libs [1])
           (map (\<lambda>r. getId (newFromSeed_keypair text_libs r)) [[2], [3], [4]])
           (Str ''hello'') None [9] (\<lambda>k. [of_nat k])
         = Resolved c
      \<and> decrypt text_libs (newFromSeed_keypair text_libs [2])
          (getId (newFromSeed_keypair text_libs [1])) c None = Resolved ''hello''
      \<and> decrypt text_libs (newFromSeed_keypair text_libs [3])
          (getId (newFromSeed_keypair text_libs [1])) c None = Resolved ''hello''
      \<and> decrypt text_libs (newFromSeed_keypair text_libs [4])
          (getId (newFromSeed_keypair text_libs [1])) c None = Resolved ''hello''
      \<and> decrypt text_libs (newFromSeed_keypair text_libs [5])
          (getId (newFromSeed_keypair text_libs [1])) c None = Rejected NotARecipient)
   \<and> (\<exists>c. encrypt text_libs (newFromSeed_keypair text_libs [1])
           (map (\<lambda>r. getId (newFromSeed_keypair text_libs r)) [[2], [3], [4]])
           (Buf [255]) None [9] (\<lambda>k. [of_nat k])
         = Resolved c
      \<and> decrypt text_libs (newFromSeed_keypair text_libs [2])
          (getId (newFromSeed_keypair text_libs [1])) c None = Pending
      \<and> decrypt text_libs (newFromSeed_keypair text_libs [5])
          (getId (newFromSeed_keypair text_libs [1])) c None = Rejected NotARecipient)"
proof -
  have nonempty: "[[2], [3], [4]] \<noteq> ([] :: bytes list)"
    by simp
  have outside: "encPub (newFromSeed_keypair text_libs [5])
                   \<notin> (\<lambda>r. encPub (newFromSeed_keypair text_libs r)) ` set [[2], [3], [4]]"
    by (simp add: newFromSeed_keypair_def text_libs_def plain_libs_def pad32_def Let_def)
  have no_text: "to_string text_libs (Buffer_from text_libs (Buf [255])) = None"
    by (simp add: text_libs_def)
  from C3_multi_recipient_decrypt
         [OF text_base64_ok text_pubkey_sizes_ok text_kx_ok text_aead_ok
             text_msgpack_ok text_utf8_ok nonempty,
          of "[1]" "Str ''hello''" None "[9]" "\<lambda>k. [of_nat k]"]
  obtain c where
    made: "encrypt text_libs (newFromSeed_keypair text_libs [1])
             (map (\<lambda>r. getId (newFromSeed_keypair text_libs r)) [[2], [3], [4]])
             (Str ''hello'') None [9] (\<lambda>k. [of_nat k]) = Resolved c"
    and inside: "\<forall>s. Str ''hello'' = Str s \<longrightarrow>
             (\<forall>r \<in> set [[2], [3], [4]].
                decrypt text_libs (newFromSeed_keypair text_libs r)
                  (getId (newFromSeed_keypair text_libs [1])) c None = Resolved s)"
    and others: "\<forall>q. encPub (newFromSeed_keypair text_libs q)
                     \<notin> (\<lambda>r. encPub (newFromSeed_keypair text_libs r)) ` set [[2], [3], [4]] \<longrightarrow>
             decrypt text_libs (newFromSeed_keypair text_libs q)
               (getId (newFromSeed_keypair text_libs [1])) c None = Rejected NotARecipient"
    by blast
  from inside [rule_format, of "''hello''"] have
    "decrypt text_libs (newFromSeed_keypair text_libs [2])
       (getId (newFromSeed_keypair text_libs [1])) c None = Resolved ''hello''"
    "decrypt text_libs (newFromSeed_keypair text_libs [3])
       (getId (newFromSeed_keypair text_libs [1])) c None = Resolved ''hello''"
    "decrypt text_libs (newFromSeed_keypair text_libs [4])
       (getId (newFromSeed_keypair text_libs [1])) c None = Resolved ''hello''"
    by simp_all
  moreover have
    "decrypt text_libs (newFromSeed_keypair text_libs [5])
       (getId (newFromSeed_keypair text_libs [1])) c None = Rejected NotARecipient"
    using others [rule_format, of "[5]"] outside by simp
  ultimately have first:
    "\<exists>c. encrypt text_libs (newFromSeed_keypair text_libs [1])
           (map (\<lambda>r. getId (newFromSeed_keypair text_libs r)) [[2], [3], [4]])
           (Str ''hello'') None [9] (\<lambda>k. [of_nat k])
         = Resolved c
      \<and> decrypt text_libs (newFromSeed_keypair text_libs [2])
          (getId (newFromSeed_keypair text_libs [1])) c None = Resolved ''hello''
      \<and> decrypt text_libs (newFromSeed_keypair text_libs [3])
          (getId (newFromSeed_keypair text_libs [1])) c None = Resolved ''hello''
      \<and> decrypt text_libs (newFromSeed_keypair text_libs [4])
          (getId (newFromSeed_keypair text_libs [1])) c None = Resolved ''hello''
      \<and> decrypt text_libs (newFromSeed_keypair text_libs [5])
          (getId (newFromSeed_keypair text_libs [1])) c None = Rejected NotARecipient"
    using made by (intro exI [of _ c]) simp
  from C3_multi_recipient_decrypt
         [OF text_base64_ok text_pubkey_sizes_ok text_kx_ok text_aead_ok
             text_msgpack_ok text_utf8_ok nonempty,
          of "[1]" "Buf [255]" None "[9]" "\<lambda>k. [of_nat k]"]
  obtain c' where
    made': "encrypt text_libs (newFromSeed_keypair text_libs [1])
             (map (\<lambda>r. getId (newFromSeed_keypair text_libs r)) [[2], [3], [4]])
             (Buf [255]) None [9] (\<lambda>k. [of_nat k]) = Resolved c'"
    and inside': "\<forall>r \<in> set [[2], [3], [4]].
             decrypt text_libs (newFromSeed_keypair text_libs r)
               (getId (newFromSeed_keypair text_libs [1])) c' None
             = (case to_string text_libs (Buffer_from text_libs (Buf [255])) of
                  None \<Rightarrow> Pending
                | Some t \<Rightarrow> Resolved t)"
    and others': "\<forall>q. encPub (newFromSeed_keypair text_libs q)
                     \<notin> (\<lambda>r. encPub (newFromSeed_keypair text_libs r)) ` set [[2], [3], [4]] \<longrightarrow>
             decrypt text_libs (newFromSeed_keypair text_libs q)
               (getId (newFromSeed_keypair text_libs [1])) c' None = Rejected NotARecipient"
    by blast
  have "decrypt text_libs (newFromSeed_keypair text_libs [2])
          (getId (newFromSeed_keypair text_libs [1])) c' None = Pending"
    using inside' [rule_format, of "[2]"] no_text by simp
  moreover have
    "decrypt text_libs (newFromSeed_keypair text_libs [5])
       (getId (newFromSeed_keypair text_libs [1])) c' None = Rejected NotARecipient"
    using others' [rule_format, of "[5]"] outside by simp
  ultimately have second:
    "\<exists>c. encrypt text_libs (newFromSeed_keypair text_libs [1])
           (map (\<lambda>r. getId (newFromSeed_keypair text_libs r)) [[2], [3], [4]])
           (Buf [255]) None [9] (\<lambda>k. [of_nat k])
         = Resolved c
      \<and> decrypt text_libs (newFromSeed_keypair text_libs [2])
          (getId (newFromSeed_keypair text_libs [1])) c None = Pending
      \<and> decrypt text_libs (newFromSeed_keypair text_libs [5])
          (getId (newFromSeed_keypair text_libs [1])) c None = Rejected NotARecipient"
    using made' by (intro exI [of _ c']) simp
  from first second show ?thesis by (rule conjI)
qed

text \<open>
  With an empty list of recipients the loop of \<open>encrypt\<close> never runs and nothing calls
  \<open>resolve\<close>: the promise stays pending.
\<close>

lemma encrypt_no_recipients: "encrypt L kp [] d adata symSecret rnd = Pending"
  by (simp add: encrypt_def)

end
